theory Spec2Isabelle
  imports Complex_Main
begin

section \<open>JavaScript values\<close>

text \<open>
  A JavaScript number is an IEEE double. The model keeps the three special values the
  source tests for (\<open>Number.isFinite\<close>, \<open>!x\<close>, \<open>x || d\<close>) and represents a finite double
  by the real number it denotes. Arithmetic on finite values is exact real arithmetic
  and the two zeros are one value: the rounding of the mantissa is not modelled, and a
  result is brought into the range of the doubles where the model says so (where a
  number is parsed, and in the handlers of the aspect lock).
\<close>

datatype jsnum = NaN | PInf | NInf | Fin real

fun isFinite :: "jsnum \<Rightarrow> bool" where
  "isFinite (Fin _) = True"
| "isFinite _ = False"

text \<open>Truthiness of a number: \<open>0\<close> and \<open>NaN\<close> are falsy.\<close>

fun truthy :: "jsnum \<Rightarrow> bool" where
  "truthy NaN = False"
| "truthy (Fin x) = (x \<noteq> 0)"
| "truthy _ = True"

fun js_add :: "jsnum \<Rightarrow> jsnum \<Rightarrow> jsnum" where
  "js_add (Fin x) (Fin y) = Fin (x + y)"
| "js_add NaN _ = NaN"
| "js_add _ NaN = NaN"
| "js_add PInf NInf = NaN"
| "js_add NInf PInf = NaN"
| "js_add PInf _ = PInf"
| "js_add _ PInf = PInf"
| "js_add NInf _ = NInf"
| "js_add _ NInf = NInf"

fun js_neg :: "jsnum \<Rightarrow> jsnum" where
  "js_neg (Fin x) = Fin (- x)"
| "js_neg PInf = NInf"
| "js_neg NInf = PInf"
| "js_neg NaN = NaN"

definition js_sub :: "jsnum \<Rightarrow> jsnum \<Rightarrow> jsnum" where
  "js_sub x y = js_add x (js_neg y)"

text \<open>The sign of a non-NaN number, as \<open>-1\<close>, \<open>0\<close> or \<open>1\<close>.\<close>

fun js_sign :: "jsnum \<Rightarrow> int" where
  "js_sign (Fin x) = (if x < 0 then - 1 else if x = 0 then 0 else 1)"
| "js_sign PInf = 1"
| "js_sign NInf = - 1"
| "js_sign NaN = 0"

fun js_mul :: "jsnum \<Rightarrow> jsnum \<Rightarrow> jsnum" where
  "js_mul (Fin x) (Fin y) = Fin (x * y)"
| "js_mul NaN _ = NaN"
| "js_mul _ NaN = NaN"
| "js_mul x y =
     (let s = js_sign x * js_sign y
      in if s = 0 then NaN else if s < 0 then NInf else PInf)"

text \<open>
  Division. A finite value divided by zero gives an infinity of the dividend's sign (the
  divisor is taken as \<open>+0\<close>) and \<open>0 / 0\<close> is \<open>NaN\<close>.
\<close>

fun js_div :: "jsnum \<Rightarrow> jsnum \<Rightarrow> jsnum" where
  "js_div (Fin x) (Fin y) =
     (if y \<noteq> 0 then Fin (x / y)
      else if x = 0 then NaN else if x < 0 then NInf else PInf)"
| "js_div NaN _ = NaN"
| "js_div _ NaN = NaN"
| "js_div (Fin x) _ = Fin 0"
| "js_div x (Fin y) = (if js_sign x * (if y < 0 then - 1 else 1) < 0 then NInf else PInf)"
| "js_div _ _ = NaN"

fun js_abs :: "jsnum \<Rightarrow> jsnum" where
  "js_abs (Fin x) = Fin \<bar>x\<bar>"
| "js_abs NaN = NaN"
| "js_abs _ = PInf"

fun js_sqrt :: "jsnum \<Rightarrow> jsnum" where
  "js_sqrt (Fin x) = (if x < 0 then NaN else Fin (sqrt x))"
| "js_sqrt PInf = PInf"
| "js_sqrt _ = NaN"

text \<open>
  \<open>Math.pow(x, y)\<close> for a finite, positive exponent \<open>y\<close> that is not an integer, which
  is the only way the source calls it (\<open>y = 2.4\<close>).
\<close>

fun js_pow :: "jsnum \<Rightarrow> real \<Rightarrow> jsnum" where
  "js_pow (Fin x) y = (if x < 0 then NaN else Fin (x powr y))"
| "js_pow NaN y = NaN"
| "js_pow _ y = PInf"

text \<open>The comparisons \<open>x > y\<close> and \<open>x <= y\<close>: false as soon as one side is \<open>NaN\<close>.\<close>

fun js_le :: "jsnum \<Rightarrow> jsnum \<Rightarrow> bool" where
  "js_le NaN _ = False"
| "js_le _ NaN = False"
| "js_le NInf _ = True"
| "js_le _ PInf = True"
| "js_le (Fin x) (Fin y) = (x \<le> y)"
| "js_le _ _ = False"

fun js_gt :: "jsnum \<Rightarrow> jsnum \<Rightarrow> bool" where
  "js_gt NaN _ = False"
| "js_gt _ NaN = False"
| "js_gt x y = (\<not> js_le x y)"

text \<open>\<open>Math.min\<close> of two numbers: \<open>NaN\<close> as soon as one of them is.\<close>

fun js_min :: "jsnum \<Rightarrow> jsnum \<Rightarrow> jsnum" where
  "js_min NaN _ = NaN"
| "js_min _ NaN = NaN"
| "js_min x y = (if js_le x y then x else y)"

section \<open>Characters and strings\<close>

text \<open>
  Strings are lists of characters. The source's strings are sequences of UTF-16 units;
  every character the modelled functions look for is ASCII, and the white space
  recognised is the ASCII white space.
\<close>

definition isWhiteSpace :: "char \<Rightarrow> bool" where
  "isWhiteSpace c \<longleftrightarrow> (of_char c :: nat) \<in> {9, 10, 11, 12, 13, 32}"

definition isDigit :: "char \<Rightarrow> bool" where
  "isDigit c \<longleftrightarrow> 48 \<le> (of_char c :: nat) \<and> (of_char c :: nat) \<le> 57"

definition digitValue :: "char \<Rightarrow> nat" where
  "digitValue c = (of_char c :: nat) - 48"

definition hexDigitValue :: "char \<Rightarrow> nat option" where
  "hexDigitValue c =
     (let n = (of_char c :: nat)
      in if 48 \<le> n \<and> n \<le> 57 then Some (n - 48)
         else if 97 \<le> n \<and> n \<le> 102 then Some (n - 87)
         else if 65 \<le> n \<and> n \<le> 70 then Some (n - 55)
         else None)"

definition toLowerCaseChar :: "char \<Rightarrow> char" where
  "toLowerCaseChar c =
     (let n = (of_char c :: nat) in if 65 \<le> n \<and> n \<le> 90 then char_of (n + 32) else c)"

definition toLowerCase :: "string \<Rightarrow> string" where
  "toLowerCase s = map toLowerCaseChar s"

definition trimStart :: "string \<Rightarrow> string" where
  "trimStart s = dropWhile isWhiteSpace s"

definition trim :: "string \<Rightarrow> string" where
  "trim s = rev (dropWhile isWhiteSpace (rev (dropWhile isWhiteSpace s)))"

definition startsWith :: "string \<Rightarrow> string \<Rightarrow> bool" where
  "startsWith s p \<longleftrightarrow> take (length p) s = p"

definition endsWith :: "string \<Rightarrow> string \<Rightarrow> bool" where
  "endsWith s p \<longleftrightarrow> length p \<le> length s \<and> drop (length s - length p) s = p"

text \<open>\<open>parseInt(s, 16)\<close>: white space, a sign, an optional \<open>0x\<close>, then hexadecimal digits.\<close>

fun hexDigits :: "string \<Rightarrow> nat list" where
  "hexDigits [] = []"
| "hexDigits (c # cs) = (case hexDigitValue c of None \<Rightarrow> [] | Some d \<Rightarrow> d # hexDigits cs)"

definition parseInt16 :: "string \<Rightarrow> jsnum" where
  "parseInt16 s =
     (let t = trimStart s;
          (sign, u) = (case t of c # cs \<Rightarrow>
                         if c = CHR ''-'' then (- 1, cs)
                         else if c = CHR ''+'' then (1, cs) else (1, t)
                       | [] \<Rightarrow> (1 :: real, t));
          v = (if startsWith (toLowerCase u) ''0x'' then drop 2 u else u);
          ds = hexDigits v
      in if ds = [] then NaN
         else Fin (sign * real (foldl (\<lambda>acc d. 16 * acc + d) 0 ds)))"

section \<open>Neutral background selection\<close>

text \<open>
  The second annotation tool of \<open>part_004\<close>: \<open>NEUTRAL_PALETTE\<close>, \<open>hexToRgb\<close>,
  \<open>colorDistance\<close>, \<open>getLuminance\<close> and \<open>chooseNeutralColor\<close>.
\<close>

datatype rgb = RGB (rgb_r: jsnum) (rgb_g: jsnum) (rgb_b: jsnum)

definition NEUTRAL_PALETTE :: "string list" where
  "NEUTRAL_PALETTE =
     [''#f8fafc'', ''#f3f4f6'', ''#e5e7eb'', ''#d1d5db'', ''#cbd5f5'', ''#94a3b8'']"

definition hexToRgb :: "string \<Rightarrow> rgb option" where
  "hexToRgb hex =
     (let n0 = trim hex;
          n1 = (if startsWith n0 ''#'' then drop 1 n0 else n0);
          n2 = (if length n1 = 3 then concat (map (\<lambda>c. [c, c]) n1) else n1)
      in if length n2 \<noteq> 6 then None
         else let r = parseInt16 (take 2 n2);
                  g = parseInt16 (take 2 (drop 2 n2));
                  b = parseInt16 (take 2 (drop 4 n2))
              in if r = NaN \<or> g = NaN \<or> b = NaN then None else Some (RGB r g b))"

definition colorDistance :: "rgb \<Rightarrow> rgb \<Rightarrow> jsnum" where
  "colorDistance a b =
     js_sqrt
       (js_add
          (js_add
             (js_mul (js_sub (rgb_r a) (rgb_r b)) (js_sub (rgb_r a) (rgb_r b)))
             (js_mul (js_sub (rgb_g a) (rgb_g b)) (js_sub (rgb_g a) (rgb_g b))))
          (js_mul (js_sub (rgb_b a) (rgb_b b)) (js_sub (rgb_b a) (rgb_b b))))"

definition toLinear :: "jsnum \<Rightarrow> jsnum" where
  "toLinear channel =
     (let c = js_div channel (Fin 255)
      in if js_le c (Fin 0.03928) then js_div c (Fin 12.92)
         else js_pow (js_div (js_add c (Fin 0.055)) (Fin 1.055)) 2.4)"

definition getLuminance :: "rgb \<Rightarrow> jsnum" where
  "getLuminance c =
     js_add
       (js_add (js_mul (Fin 0.2126) (toLinear (rgb_r c)))
               (js_mul (Fin 0.7152) (toLinear (rgb_g c))))
       (js_mul (Fin 0.0722) (toLinear (rgb_b c)))"

text \<open>The ramp with its parsed colours; an entry whose colour does not parse is dropped.\<close>

definition palette :: "(string \<times> rgb) list" where
  "palette = List.map_filter (\<lambda>hex. map_option (Pair hex) (hexToRgb hex)) NEUTRAL_PALETTE"

definition avgLuminance :: "rgb list \<Rightarrow> jsnum" where
  "avgLuminance colors =
     js_div (foldl (\<lambda>sum color. js_add sum (getLuminance color)) (Fin 0) colors)
            (Fin (real (length colors)))"

definition minDistance :: "rgb \<Rightarrow> rgb list \<Rightarrow> jsnum" where
  "minDistance candidate colors =
     foldl (\<lambda>m color. js_min m (colorDistance candidate color)) PInf colors"

definition score :: "rgb list \<Rightarrow> rgb \<Rightarrow> jsnum" where
  "score colors candidate =
     (let luminanceDelta = js_abs (js_sub (getLuminance candidate) (avgLuminance colors))
      in js_add (js_mul (minDistance candidate colors) (Fin 0.8))
                (js_mul luminanceDelta (Fin 260)))"

text \<open>One round of the \<open>forEach\<close> over the ramp: the pair is \<open>(best, bestScore)\<close>.\<close>

definition consider_candidate ::
  "rgb list \<Rightarrow> (string \<times> rgb) option \<times> jsnum \<Rightarrow> string \<times> rgb \<Rightarrow> (string \<times> rgb) option \<times> jsnum"
where
  "consider_candidate colors acc candidate =
     (if js_gt (score colors (snd candidate)) (snd acc)
      then (Some candidate, score colors (snd candidate)) else acc)"

definition hex_or_default :: "(string \<times> rgb) option \<Rightarrow> string" where
  "hex_or_default e =
     (case e of None \<Rightarrow> ''#f3f4f6''
      | Some c \<Rightarrow> if fst c = [] then ''#f3f4f6'' else fst c)"

definition chooseNeutralColor :: "rgb list \<Rightarrow> string" where
  "chooseNeutralColor colors =
     (if colors = [] then hex_or_default (case palette of _ # e # _ \<Rightarrow> Some e | _ \<Rightarrow> None)
      else hex_or_default
             (fst (foldl (consider_candidate colors)
                         (case palette of [] \<Rightarrow> None | e # _ \<Rightarrow> Some e, NInf) palette)))"

text \<open>The background the application reports (the \<open>App\<close> component of the same tool).\<close>

definition previewBackground :: "bool \<Rightarrow> rgb list \<Rightarrow> string" where
  "previewBackground transparentBg colors =
     (if transparentBg then ''transparent'' else chooseNeutralColor colors)"

definition backgroundLabel :: "bool \<Rightarrow> rgb list \<Rightarrow> string" where
  "backgroundLabel transparentBg colors =
     (if transparentBg then ''transparent'' else previewBackground transparentBg colors)"

text \<open>Auxiliary notions used to state the properties of the selector.\<close>

text \<open>The gamma branch of \<open>toLinear\<close> on a finite channel value.\<close>

definition lin :: "real \<Rightarrow> real" where
  "lin x = ((x / 255 + 0.055) / 1.055) powr 2.4"

definition finite_rgb :: "rgb \<Rightarrow> bool" where
  "finite_rgb c \<longleftrightarrow> isFinite (rgb_r c) \<and> isFinite (rgb_g c) \<and> isFinite (rgb_b c)"

text \<open>The ramp entries whose luminance is strictly greater than that of the colour \<open>hex\<close>.\<close>

definition lighter_entries :: "string \<Rightarrow> (string \<times> rgb) list" where
  "lighter_entries hex =
     (case hexToRgb hex of None \<Rightarrow> []
      | Some c \<Rightarrow> filter (\<lambda>e. js_gt (getLuminance (snd e)) (getLuminance c)) palette)"

text \<open>
  The first annotation tool (\<open>part_003\<close>) computes its background in \<open>App\<close> the same way;
  \<open>neutralColor\<close> stands for \<open>computeNeutralBackground(svgMeta.colors).color\<close>, which the
  source derives from the palette through the host's canvas colour parser.
\<close>

definition backgroundColor :: "bool \<Rightarrow> string \<Rightarrow> string" where
  "backgroundColor backgroundTransparent neutralColor =
     (if backgroundTransparent then ''transparent'' else neutralColor)"

section \<open>Parsing numbers\<close>

text \<open>
  The Number value of a real: a magnitude of \<open>2^1024 - 2^970\<close> or more overflows to an
  infinity, one of \<open>2^-1075\<close> or less underflows to zero; any other value is kept as it is.
\<close>

definition numberValue :: "real \<Rightarrow> jsnum" where
  "numberValue x =
     (if 2 ^ 1024 - 2 ^ 970 \<le> \<bar>x\<bar> then (if x < 0 then NInf else PInf)
      else if \<bar>x\<bar> \<le> 1 / 2 ^ 1075 then Fin 0
      else Fin x)"

text \<open>
  The double that the exact result of a multiplication or of a division denotes, as far
  as its range goes: a result beyond the range of the doubles is an infinity and one too
  small is zero. The handlers of the aspect lock compute with what the user typed, and
  there the result is brought into the range this way.
\<close>

fun toDouble :: "jsnum \<Rightarrow> jsnum" where
  "toDouble (Fin x) = numberValue x"
| "toDouble v = v"

definition digitsValue :: "string \<Rightarrow> nat" where
  "digitsValue ds = foldl (\<lambda>acc c. 10 * acc + digitValue c) 0 ds"

text \<open>The value of an exponent part (\<open>e\<close>, a sign, digits) at the head of a string, or \<open>0\<close>.\<close>

definition parseExponent :: "string \<Rightarrow> int" where
  "parseExponent r =
     (case r of
        [] \<Rightarrow> 0
      | e # w \<Rightarrow>
          if e = CHR ''e'' \<or> e = CHR ''E'' then
            (let (neg, ds) =
                   (case w of
                      [] \<Rightarrow> (False, [])
                    | s # w' \<Rightarrow>
                        if s = CHR ''-'' then (True, takeWhile isDigit w')
                        else if s = CHR ''+'' then (False, takeWhile isDigit w')
                        else (False, takeWhile isDigit w))
             in if ds = [] then 0
                else if neg then - int (digitsValue ds) else int (digitsValue ds))
          else 0)"

text \<open>
  \<open>parseFloat\<close>: leading white space is skipped and the longest prefix that is a decimal
  literal (or \<open>Infinity\<close>) is read; \<open>NaN\<close> when there is none.
\<close>

definition parseFloat :: "string \<Rightarrow> jsnum" where
  "parseFloat s =
     (let t = trimStart s;
          (neg, u) = (case t of
                        [] \<Rightarrow> (False, t)
                      | c # cs \<Rightarrow>
                          if c = CHR ''-'' then (True, cs)
                          else if c = CHR ''+'' then (False, cs) else (False, t))
      in if startsWith u ''Infinity'' then (if neg then NInf else PInf)
         else
           let ip = takeWhile isDigit u;
               r1 = dropWhile isDigit u;
               (fp, r2) = (case r1 of
                             [] \<Rightarrow> ([], r1)
                           | c # cs \<Rightarrow>
                               if c = CHR ''.'' then (takeWhile isDigit cs, dropWhile isDigit cs)
                               else ([], r1))
           in if ip = [] \<and> fp = [] then NaN
              else
                let m = real (digitsValue ip) + real (digitsValue fp) / 10 ^ length fp;
                    ex = parseExponent r2;
                    v = (if 0 \<le> ex then m * 10 ^ nat ex else m / 10 ^ nat (- ex))
                in numberValue (if neg then - v else v))"

section \<open>The document tree\<close>

text \<open>
  The document the host's \<open>DOMParser\<close> returns for a markup string is an input of the
  model. An element has a name, its attributes in order, its character data and its child
  elements; the character data is kept per element, without its position among the
  children (only \<open>textContent\<close> reads it). Element names carry no namespace prefix, and a
  type selector matches the name exactly, as it does in an XML document.
\<close>

datatype element =
  Element (tagName: string) (attributes: "(string \<times> string) list")
          (characterData: string) (children: "element list")

definition getAttribute :: "element \<Rightarrow> string \<Rightarrow> string option" where
  "getAttribute e name = map_of (attributes e) name"

definition hasAttribute :: "element \<Rightarrow> string \<Rightarrow> bool" where
  "hasAttribute e name \<longleftrightarrow> name \<in> fst ` set (attributes e)"

text \<open>\<open>setAttribute\<close> replaces the value of an attribute in place or appends a new one.\<close>

fun updateAttribute :: "string \<Rightarrow> string \<Rightarrow> (string \<times> string) list \<Rightarrow> (string \<times> string) list" where
  "updateAttribute name v [] = [(name, v)]"
| "updateAttribute name v (a # as) =
     (if fst a = name then (name, v) # as else a # updateAttribute name v as)"

definition setAttribute :: "string \<Rightarrow> string \<Rightarrow> element \<Rightarrow> element" where
  "setAttribute name v e =
     Element (tagName e) (updateAttribute name v (attributes e)) (characterData e) (children e)"

text \<open>The proper descendants of an element, in document order.\<close>

fun descendants :: "element \<Rightarrow> element list" where
  "descendants (Element t as x cs) = concat (map (\<lambda>c. c # descendants c) cs)"

fun textContent :: "element \<Rightarrow> string" where
  "textContent (Element t as x cs) = x @ concat (map textContent cs)"

text \<open>
  \<open>doc.querySelector(name)\<close> on a document with root \<open>doc\<close> (\<open>None\<close> when the document has
  no root element): the first element of that name, the root included.
\<close>

definition querySelector :: "element option \<Rightarrow> string \<Rightarrow> element option" where
  "querySelector doc name =
     (case doc of
        None \<Rightarrow> None
      | Some rootEl \<Rightarrow> find (\<lambda>e. tagName e = name) (rootEl # descendants rootEl))"

section \<open>The first annotation tool: metadata of the drawing\<close>

text \<open>
  \<open>parseLength\<close>, \<open>parseSvgMeta\<close>, \<open>sanitizeSvg\<close> and the \<open>App\<close> component of \<open>part_003\<close>.
\<close>

text \<open>
  The regular expression \<open>(-?\d*\.?\d+)\<close> of \<open>parseLength\<close>. \<open>numberPrefix\<close> is the match of
  \<open>\d*\.?\d+\<close> at the head of a string: the digits, a dot and the digits after it when there
  are some, else the leading digits alone.
\<close>

definition numberPrefix :: "string \<Rightarrow> string option" where
  "numberPrefix t =
     (let d1 = takeWhile isDigit t;
          r = dropWhile isDigit t;
          d2 = (case r of [] \<Rightarrow> [] | c # cs \<Rightarrow> if c = CHR ''.'' then takeWhile isDigit cs else [])
      in if d2 \<noteq> [] then Some (d1 @ ''.'' @ d2)
         else if d1 \<noteq> [] then Some d1
         else None)"

definition lengthMatchAt :: "string \<Rightarrow> string option" where
  "lengthMatchAt t =
     (case t of
        [] \<Rightarrow> None
      | c # cs \<Rightarrow>
          if c = CHR ''-'' then
            (case numberPrefix cs of Some m \<Rightarrow> Some (CHR ''-'' # m) | None \<Rightarrow> numberPrefix t)
          else numberPrefix t)"

text \<open>The leftmost match in the string.\<close>

fun lengthMatch :: "string \<Rightarrow> string option" where
  "lengthMatch [] = None"
| "lengthMatch (c # cs) =
     (case lengthMatchAt (c # cs) of Some m \<Rightarrow> Some m | None \<Rightarrow> lengthMatch cs)"

text \<open>\<open>parseLength\<close>: \<open>None\<close> is \<open>undefined\<close>; the argument is \<open>None\<close> for a missing attribute.\<close>

definition parseLength :: "string option \<Rightarrow> real option" where
  "parseLength v =
     (case v of
        None \<Rightarrow> None
      | Some s \<Rightarrow>
          if s = [] then None
          else (case lengthMatch s of
                  None \<Rightarrow> None
                | Some m \<Rightarrow> (case parseFloat m of Fin x \<Rightarrow> Some x | _ \<Rightarrow> None)))"

text \<open>
  \<open>s.split(re)\<close> for a regular expression \<open>re\<close> that matches the non-empty runs of the
  separator characters \<open>sep\<close>: the pieces of \<open>s\<close> between the runs.
\<close>

function splitRuns :: "(char \<Rightarrow> bool) \<Rightarrow> string \<Rightarrow> string list" where
  "splitRuns sep s =
     (let tok = takeWhile (\<lambda>c. \<not> sep c) s;
          rest = dropWhile (\<lambda>c. \<not> sep c) s
      in if rest = [] then [tok] else tok # splitRuns sep (dropWhile sep rest))"
  by pat_completeness auto
termination
proof (relation "measure (\<lambda>(sep, s). length s)")
  fix sep :: "char \<Rightarrow> bool" and s :: string and tok rest
  assume rest: "rest = dropWhile (\<lambda>c. \<not> sep c) s" and ne: "rest \<noteq> []"
  from ne obtain c cs where r: "rest = c # cs" by (cases rest) auto
  have "sep c" using rest r hd_dropWhile [of "\<lambda>c. \<not> sep c" s] by force
  then have "length (dropWhile sep rest) \<le> length cs"
    by (simp add: r length_dropWhile_le)
  moreover have "length rest \<le> length s"
    by (simp add: rest length_dropWhile_le)
  ultimately show "((sep, dropWhile sep rest), (sep, s)) \<in> measure (\<lambda>(sep, s). length s)"
    by (simp add: r)
qed simp

text \<open>\<open>s.split(/\s+/)\<close>.\<close>

definition split_ws :: "string \<Rightarrow> string list" where
  "split_ws s = splitRuns isWhiteSpace s"

text \<open>
  The element at an index of an array of numbers when it is there and is a finite number
  (\<open>Number.isFinite\<close> of a missing element is false).
\<close>

definition finiteAt :: "jsnum list \<Rightarrow> nat \<Rightarrow> real option" where
  "finiteAt parts i =
     (if i < length parts then (case parts ! i of Fin x \<Rightarrow> Some x | _ \<Rightarrow> None) else None)"

text \<open>\<open>!v\<close> for a value that is a finite number or \<open>undefined\<close>.\<close>

definition falsy :: "real option \<Rightarrow> bool" where
  "falsy v \<longleftrightarrow> v = None \<or> v = Some 0"

definition msg_parse_failed :: string where
  "msg_parse_failed =
     ''SVG '' @ [CHR 0xE3, CHR 0x81, CHR 0xAE, CHR 0xE8, CHR 0xA7, CHR 0xA3, CHR 0xE6, CHR 0x9E,
       CHR 0x90, CHR 0xE3, CHR 0x81, CHR 0xAB, CHR 0xE5, CHR 0xA4, CHR 0xB1, CHR 0xE6, CHR 0x95,
       CHR 0x97, CHR 0xE3, CHR 0x81, CHR 0x97, CHR 0xE3, CHR 0x81, CHR 0xBE, CHR 0xE3, CHR 0x81,
       CHR 0x97, CHR 0xE3, CHR 0x81, CHR 0x9F]"

definition msg_no_root :: string where
  "msg_no_root =
     ''SVG '' @ [CHR 0xE3, CHR 0x83, CHR 0xAB, CHR 0xE3, CHR 0x83, CHR 0xBC, CHR 0xE3, CHR 0x83,
       CHR 0x88, CHR 0xE8, CHR 0xA6, CHR 0x81, CHR 0xE7, CHR 0xB4, CHR 0xA0, CHR 0xE3, CHR 0x81,
       CHR 0x8C, CHR 0xE8, CHR 0xA6, CHR 0x8B, CHR 0xE3, CHR 0x81, CHR 0xA4, CHR 0xE3, CHR 0x81,
       CHR 0x8B, CHR 0xE3, CHR 0x82, CHR 0x8A, CHR 0xE3, CHR 0x81, CHR 0xBE, CHR 0xE3, CHR 0x81,
       CHR 0x9B, CHR 0xE3, CHR 0x82, CHR 0x93]"

text \<open>
  The result of \<open>parseSvgMeta\<close>, without its \<open>signature\<close> and \<open>colors\<close> fields (the walk over
  the fill and stroke colours reads the tree and changes none of the other fields).
\<close>

datatype svgMeta =
  SvgMeta (meta_width: real) (meta_height: real) (meta_viewBox: string)
          (meta_error: "string option")

definition failedMeta :: "string \<Rightarrow> svgMeta" where
  "failedMeta msg = SvgMeta 320 180 ''0 0 320 180'' (Some msg)"

text \<open>The third and fourth numbers of a \<open>viewBox\<close> attribute, each when it is finite.\<close>

definition viewBoxSize :: "string \<Rightarrow> real option \<times> real option" where
  "viewBoxSize viewBox =
     (let parts = map parseFloat (split_ws viewBox)
      in (finiteAt parts 2, finiteAt parts 3))"

text \<open>
  \<open>parseSvgMeta\<close> in a browser (\<open>isBrowser\<close> is true). \<open>doc\<close> is the document of the markup
  and \<open>toStr\<close> the host's conversion of a number to a string, used by the template literal
  of the \<open>viewBox\<close> field. No step of the model raises, so the \<open>catch\<close> branch is not
  reached.
\<close>

definition parseSvgMeta :: "(real \<Rightarrow> string) \<Rightarrow> element option \<Rightarrow> svgMeta" where
  "parseSvgMeta toStr doc =
     (case querySelector doc ''parsererror'' of
        Some parserError \<Rightarrow>
          failedMeta (if textContent parserError \<noteq> [] then textContent parserError
                      else msg_parse_failed)
      | None \<Rightarrow>
          (case doc of
             None \<Rightarrow> failedMeta msg_no_root
           | Some svgEl \<Rightarrow>
               if toLowerCase (tagName svgEl) \<noteq> ''svg'' then failedMeta msg_no_root
               else
                 let width0 = parseLength (getAttribute svgEl ''width'');
                     height0 = parseLength (getAttribute svgEl ''height'');
                     viewBox = getAttribute svgEl ''viewBox'';
                     (vbWidth, vbHeight) =
                        (case viewBox of
                           None \<Rightarrow> (None, None)
                         | Some vb \<Rightarrow>
                             if (falsy width0 \<or> falsy height0) \<and> vb \<noteq> [] then viewBoxSize vb
                             else (None, None));
                     width1 = (if falsy width0 \<and> vbWidth \<noteq> None then vbWidth else width0);
                     height1 = (if falsy height0 \<and> vbHeight \<noteq> None then vbHeight else height0);
                     width = (case width1 of None \<Rightarrow> 320 | Some w \<Rightarrow> if w = 0 then 320 else w);
                     height = (case height1 of None \<Rightarrow> 180 | Some h \<Rightarrow> if h = 0 then 180 else h)
                 in SvgMeta width height
                      (case viewBox of
                         None \<Rightarrow> ''0 0 '' @ toStr width @ '' '' @ toStr height
                       | Some vb \<Rightarrow>
                           if vb \<noteq> [] then vb else ''0 0 '' @ toStr width @ '' '' @ toStr height)
                      None))"

text \<open>
  \<open>sanitizeSvg\<close> removes every match of \<open><script[\s\S]*?>[\s\S]*?<\/script>\<close> (flags \<open>gi\<close>)
  from the markup text. A match at the head of a string is \<open><script\<close>, the text up to
  the first \<open>>\<close> and the text up to the first \<open></script>\<close> after that, in any letter case;
  \<open>scriptBlockAt\<close> gives the text that follows the match.
\<close>

fun afterScriptClose :: "string \<Rightarrow> string option" where
  "afterScriptClose [] = None"
| "afterScriptClose (c # cs) =
     (if startsWith (toLowerCase (c # cs)) ''</script>'' then Some (drop 9 (c # cs))
      else afterScriptClose cs)"

definition afterFirstGt :: "string \<Rightarrow> string option" where
  "afterFirstGt s =
     (case dropWhile (\<lambda>c. c \<noteq> CHR ''>'') s of [] \<Rightarrow> None | c # r \<Rightarrow> Some r)"

definition scriptBlockAt :: "string \<Rightarrow> string option" where
  "scriptBlockAt s =
     (if startsWith (toLowerCase s) ''<script''
      then (case afterFirstGt (drop 7 s) of None \<Rightarrow> None | Some r \<Rightarrow> afterScriptClose r)
      else None)"

function removeScriptBlocks :: "string \<Rightarrow> string" where
  "removeScriptBlocks [] = []"
| "removeScriptBlocks (c # cs) =
     (case scriptBlockAt (c # cs) of
        Some rest \<Rightarrow> removeScriptBlocks rest
      | None \<Rightarrow> c # removeScriptBlocks cs)"
  by pat_completeness auto
termination
proof (relation "measure length")
  fix c :: char and cs rest :: string
  assume m: "scriptBlockAt (c # cs) = Some rest"
  have close: "afterScriptClose s = Some r \<Longrightarrow> length r \<le> length s" for s r
    by (induction s) (auto split: if_splits)
  have gt: "afterFirstGt s = Some r \<Longrightarrow> length r \<le> length s" for s r
  proof -
    assume "afterFirstGt s = Some r"
    then obtain d where "dropWhile (\<lambda>c. c \<noteq> CHR ''>'') s = d # r"
      by (auto simp: afterFirstGt_def split: list.splits)
    then have "length (d # r) \<le> length s"
      by (metis length_dropWhile_le)
    then show ?thesis by simp
  qed
  from m obtain r where r: "afterFirstGt (drop 7 (c # cs)) = Some r" "afterScriptClose r = Some rest"
    by (auto simp: scriptBlockAt_def split: if_splits option.splits)
  have "length rest \<le> length r" using close r(2) by blast
  also have "\<dots> \<le> length (drop 7 (c # cs))" using gt r(1) by blast
  also have "\<dots> < length (c # cs)" by simp
  finally show "(rest, c # cs) \<in> measure length" by simp
qed simp_all

definition sanitizeSvg :: "string \<Rightarrow> string" where
  "sanitizeSvg svgText = (if svgText = [] then [] else removeScriptBlocks svgText)"

text \<open>
  \<open>formatNumberForInput\<close>. \<open>toFixed x 2\<close> stands for the host's \<open>x.toFixed(2)\<close>; the two
  replacements remove a fraction of zeros (\<open>/\.0+$/\<close>) and the zeros that end a fraction
  (\<open>/(\.\d*?)0+$/\<close>).
\<close>

fun dropZeroFraction :: "string \<Rightarrow> string" where
  "dropZeroFraction [] = []"
| "dropZeroFraction (c # cs) =
     (if c = CHR ''.'' \<and> cs \<noteq> [] \<and> list_all (\<lambda>d. d = CHR ''0'') cs then []
      else c # dropZeroFraction cs)"

fun dropTrailingZeros :: "string \<Rightarrow> string" where
  "dropTrailingZeros [] = []"
| "dropTrailingZeros (c # cs) =
     (if c = CHR ''.'' \<and> list_all isDigit cs
         \<and> rev cs \<noteq> dropWhile (\<lambda>d. d = CHR ''0'') (rev cs)
      then c # rev (dropWhile (\<lambda>d. d = CHR ''0'') (rev cs))
      else c # dropTrailingZeros cs)"

definition formatNumberForInput :: "(real \<Rightarrow> nat \<Rightarrow> string) \<Rightarrow> jsnum \<Rightarrow> string" where
  "formatNumberForInput toFixed v =
     (case v of
        Fin x \<Rightarrow> dropTrailingZeros (dropZeroFraction (toFixed x 2))
      | _ \<Rightarrow> [])"

text \<open>
  The state of the \<open>App\<close> component that the modelled code reads and writes; the unit and
  the two label switches only change the text of the labels.
\<close>

record appState =
  svgText :: string
  maintainAspect :: bool
  backgroundTransparent :: bool
  showDimensionLines :: bool
  widthInput :: string
  heightInput :: string
  aspectRatioRef :: jsnum

definition handleWidthChange :: "(real \<Rightarrow> nat \<Rightarrow> string) \<Rightarrow> string \<Rightarrow> appState \<Rightarrow> appState" where
  "handleWidthChange toFixed v st =
     (let st1 = st\<lparr>widthInput := v\<rparr>
      in if \<not> maintainAspect st then st1
         else
           let numeric = parseFloat v;
               ratio = aspectRatioRef st
           in if \<not> isFinite numeric \<or> \<not> isFinite ratio \<or> ratio = Fin 0 then st1
              else
                let nextHeight = toDouble (js_div numeric ratio)
                in if isFinite nextHeight \<and> js_gt nextHeight (Fin 0)
                   then st1\<lparr>heightInput := formatNumberForInput toFixed nextHeight\<rparr>
                   else st1)"

definition handleHeightChange :: "(real \<Rightarrow> nat \<Rightarrow> string) \<Rightarrow> string \<Rightarrow> appState \<Rightarrow> appState" where
  "handleHeightChange toFixed v st =
     (let st1 = st\<lparr>heightInput := v\<rparr>
      in if \<not> maintainAspect st then st1
         else
           let numeric = parseFloat v;
               ratio = aspectRatioRef st
           in if \<not> isFinite numeric \<or> \<not> isFinite ratio \<or> \<not> truthy ratio then st1
              else
                let nextWidth = toDouble (js_mul numeric ratio)
                in if isFinite nextWidth \<and> js_gt nextWidth (Fin 0)
                   then st1\<lparr>widthInput := formatNumberForInput toFixed nextWidth\<rparr>
                   else st1)"

text \<open>
  What \<open>App\<close> renders in the preview panel: the error message alone, or the stage with
  the sanitized markup and, when the dimension lines are switched on, the overlay. The
  overlay is given by the numbers of its \<open>viewBox\<close> and the end points \<open>(x1, y1, x2, y2)\<close>
  of its six lines; the text labels are left out. The argument \<open>doc\<close> of \<open>App\<close> is the
  document of the markup \<open>svgText\<close> of the state, and \<open>neutralColor\<close> the colour computed
  from its palette.
\<close>

datatype overlay =
  Overlay (ov_viewBox: "real \<times> real \<times> real \<times> real")
          (ov_lines: "(real \<times> real \<times> real \<times> real) list")

datatype preview =
  ErrorAlert string
| PreviewStack (pv_background: string) (pv_content: string) (pv_overlay: "overlay option")

text \<open>
  The size the overlay is drawn for, for one dimension (\<open>parsedWidth\<close>, \<open>widthIsValid\<close>,
  \<open>fallbackWidth\<close>, \<open>widthValue\<close> and \<open>safeWidth\<close> of the source).
\<close>

definition safeSize :: "string \<Rightarrow> real \<Rightarrow> real \<Rightarrow> real" where
  "safeSize input metaSize dflt =
     (let parsed = parseFloat input;
          fallback = (if metaSize = 0 then dflt else metaSize);
          v = (case parsed of Fin x \<Rightarrow> if 0 < x then x else fallback | _ \<Rightarrow> fallback)
      in if 0 < v then v else 1)"

definition dimensionOverlay :: "real \<Rightarrow> real \<Rightarrow> overlay" where
  "dimensionOverlay safeWidth safeHeight =
     (let maxSide = max safeWidth safeHeight;
          margin = max (maxSide * 0.15) 20;
          widthLineY = - margin * 0.6;
          heightLineX = - margin * 0.6;
          extensionOvershoot = margin * 0.2
      in Overlay (- margin, - margin, safeWidth + margin * 2, safeHeight + margin * 2)
           [(0, 0, 0, widthLineY + extensionOvershoot),
            (safeWidth, 0, safeWidth, widthLineY + extensionOvershoot),
            (heightLineX + extensionOvershoot, 0, 0, 0),
            (heightLineX + extensionOvershoot, safeHeight, 0, safeHeight),
            (0, widthLineY, safeWidth, widthLineY),
            (heightLineX, 0, heightLineX, safeHeight)])"

definition App :: "(real \<Rightarrow> string) \<Rightarrow> element option \<Rightarrow> string \<Rightarrow> appState \<Rightarrow> preview" where
  "App toStr doc neutralColor st =
     (let svgMeta = parseSvgMeta toStr doc;
          sanitizedSvg = sanitizeSvg (svgText st);
          safeWidth = safeSize (widthInput st) (meta_width svgMeta) 320;
          safeHeight = safeSize (heightInput st) (meta_height svgMeta) 180;
          stack = PreviewStack (backgroundColor (backgroundTransparent st) neutralColor)
                    sanitizedSvg
                    (if showDimensionLines st then Some (dimensionOverlay safeWidth safeHeight)
                     else None)
      in case meta_error svgMeta of
           None \<Rightarrow> stack
         | Some msg \<Rightarrow> if msg \<noteq> [] then ErrorAlert msg else stack)"

section \<open>The second annotation tool: ingestion\<close>

text \<open>\<open>parseLength\<close> and \<open>parseSvg\<close> of the second tool of \<open>part_004\<close>.\<close>

text \<open>The regular expression \<open>-?\d+(?:\.\d+)?\<close>: its match at the head of a string.\<close>

definition decimalPrefix :: "string \<Rightarrow> string option" where
  "decimalPrefix t =
     (let d1 = takeWhile isDigit t;
          r = dropWhile isDigit t;
          d2 = (case r of [] \<Rightarrow> [] | c # cs \<Rightarrow> if c = CHR ''.'' then takeWhile isDigit cs else [])
      in if d1 = [] then None
         else if d2 \<noteq> [] then Some (d1 @ ''.'' @ d2)
         else Some d1)"

definition decimalMatchAt :: "string \<Rightarrow> string option" where
  "decimalMatchAt t =
     (case t of
        [] \<Rightarrow> None
      | c # cs \<Rightarrow>
          if c = CHR ''-'' then
            (case decimalPrefix cs of Some m \<Rightarrow> Some (CHR ''-'' # m) | None \<Rightarrow> decimalPrefix t)
          else decimalPrefix t)"

fun decimalMatch :: "string \<Rightarrow> string option" where
  "decimalMatch [] = None"
| "decimalMatch (c # cs) =
     (case decimalMatchAt (c # cs) of Some m \<Rightarrow> Some m | None \<Rightarrow> decimalMatch cs)"

text \<open>\<open>parseLength(raw, fallback)\<close> of the second tool.\<close>

definition parseLength2 :: "string option \<Rightarrow> real \<Rightarrow> real" where
  "parseLength2 raw fallback =
     (case raw of
        None \<Rightarrow> fallback
      | Some s \<Rightarrow>
          if s = [] then fallback
          else (case decimalMatch s of
                  None \<Rightarrow> fallback
                | Some m \<Rightarrow> (case parseFloat m of Fin x \<Rightarrow> x | _ \<Rightarrow> fallback)))"

definition msg_svg_not_found :: string where
  "msg_svg_not_found =
     ''<svg> '' @ [CHR 0xE8, CHR 0xA6, CHR 0x81, CHR 0xE7, CHR 0xB4, CHR 0xA0, CHR 0xE3, CHR 0x81,
       CHR 0x8C, CHR 0xE8, CHR 0xA6, CHR 0x8B, CHR 0xE3, CHR 0x81, CHR 0xA4, CHR 0xE3, CHR 0x81,
       CHR 0x8B, CHR 0xE3, CHR 0x82, CHR 0x8A, CHR 0xE3, CHR 0x81, CHR 0xBE, CHR 0xE3, CHR 0x81,
       CHR 0x9B, CHR 0xE3, CHR 0x82, CHR 0x93]"

datatype viewBox = ViewBox (vb_x: real) (vb_y: real) (vb_width: real) (vb_height: real)

text \<open>
  The result of \<open>parseSvg\<close> without its \<open>colors\<close>: \<open>parsed_svg\<close> is the element whose
  serialization is the \<open>svg\<close> field (\<open>None\<close> for the empty string).
\<close>

datatype parsed =
  Parsed (parsed_svg: "element option") (parsed_viewBox: "viewBox option")
         (parsed_error: "string option")

text \<open>The \<open>viewBox\<close> attribute read as four finite numbers.\<close>

definition readViewBox :: "string option \<Rightarrow> viewBox option" where
  "readViewBox viewBoxAttr =
     (case viewBoxAttr of
        None \<Rightarrow> None
      | Some a \<Rightarrow>
          if a = [] then None
          else
            let parts = map parseFloat (splitRuns (\<lambda>c. c = CHR '' '' \<or> c = CHR '','') a)
            in (case parts of
                  [Fin x, Fin y, Fin w, Fin h] \<Rightarrow>
                    Some (ViewBox x y (if w = 0 then 1 else w) (if h = 0 then 1 else h))
                | _ \<Rightarrow> None))"

text \<open>
  \<open>parseSvg\<close>: \<open>raw\<close> is the markup text and \<open>doc\<close> the document of the trimmed text.
\<close>

definition parseSvg :: "(real \<Rightarrow> string) \<Rightarrow> string \<Rightarrow> element option \<Rightarrow> parsed" where
  "parseSvg toStr raw doc =
     (if trim raw = [] then Parsed None None None
      else
        case querySelector doc ''parsererror'' of
          Some parserError \<Rightarrow>
            Parsed None None
              (Some (if textContent parserError \<noteq> [] then textContent parserError
                     else msg_parse_failed))
        | None \<Rightarrow>
            (case querySelector doc ''svg'' of
               None \<Rightarrow> Parsed None None (Some msg_svg_not_found)
             | Some svg \<Rightarrow>
                 let (viewBox, svg1) =
                       (case readViewBox (getAttribute svg ''viewBox'') of
                          Some vb \<Rightarrow> (vb, svg)
                        | None \<Rightarrow>
                            let widthAttr = parseLength2 (getAttribute svg ''width'') 160;
                                heightAttr = parseLength2 (getAttribute svg ''height'') 120;
                                vb = ViewBox 0 0 (if widthAttr = 0 then 160 else widthAttr)
                                       (if heightAttr = 0 then 120 else heightAttr)
                            in (vb,
                                setAttribute ''viewBox''
                                  (toStr (vb_x vb) @ '' '' @ toStr (vb_y vb) @ '' ''
                                     @ toStr (vb_width vb) @ '' '' @ toStr (vb_height vb))
                                  svg));
                     svg2 = (case getAttribute svg1 ''preserveAspectRatio'' of
                               None \<Rightarrow> setAttribute ''preserveAspectRatio'' ''xMidYMid meet'' svg1
                             | Some p \<Rightarrow>
                                 if p = [] then setAttribute ''preserveAspectRatio'' ''xMidYMid meet'' svg1
                                 else svg1)
                 in Parsed (Some svg2) (Some viewBox) None))"

section \<open>The dimension guide\<close>

text \<open>\<open>sanitizeSvgMarkup\<close> of the first tool of \<open>part_004\<close>.\<close>

definition DEFAULT_WIDTH :: real where
  "DEFAULT_WIDTH = 200"

definition DEFAULT_HEIGHT :: real where
  "DEFAULT_HEIGHT = 120"

text \<open>\<open>svg.querySelectorAll("script").forEach((node) => node.remove())\<close>.\<close>

fun removeScripts :: "element \<Rightarrow> element" where
  "removeScripts (Element t as x cs) =
     Element t as x (map removeScripts (filter (\<lambda>c. tagName c \<noteq> ''script'') cs))"

definition isHandlerName :: "string \<Rightarrow> bool" where
  "isHandlerName name \<longleftrightarrow> startsWith (toLowerCase name) ''on''"

text \<open>The cleaning of one node of \<open>toClean\<close>, applied to a whole subtree.\<close>

fun cleanSubtree :: "element \<Rightarrow> element" where
  "cleanSubtree (Element t as x cs) =
     Element t (filter (\<lambda>a. \<not> isHandlerName (fst a)) as) x (map cleanSubtree cs)"

text \<open>
  The tree walker starts at \<open>svg\<close> and \<open>nextNode\<close> moves on before the first node is
  collected: \<open>toClean\<close> holds the proper descendants of \<open>svg\<close>, not \<open>svg\<close> itself.
\<close>

definition cleanBelow :: "element \<Rightarrow> element" where
  "cleanBelow svg =
     Element (tagName svg) (attributes svg) (characterData svg) (map cleanSubtree (children svg))"

text \<open>
  \<open>sanitizeSvgMarkup\<close> in a browser; the result \<open>None\<close> is the empty string and \<open>Some e\<close> the
  \<open>outerHTML\<close> of the element \<open>e\<close>.
\<close>

definition sanitizeSvgMarkup ::
  "(real \<Rightarrow> string) \<Rightarrow> string \<Rightarrow> element option \<Rightarrow> jsnum \<Rightarrow> jsnum \<Rightarrow> string \<Rightarrow> element option"
where
  "sanitizeSvgMarkup toStr svgMarkup doc width height unit =
     (if svgMarkup = [] then None
      else if querySelector doc ''parsererror'' \<noteq> None then None
      else
        case querySelector doc ''svg'' of
          None \<Rightarrow> None
        | Some svg \<Rightarrow>
            let svg1 = cleanBelow (removeScripts svg);
                widthValue = (case width of Fin w \<Rightarrow> if 0 < w then w else DEFAULT_WIDTH
                              | _ \<Rightarrow> DEFAULT_WIDTH);
                heightValue = (case height of Fin h \<Rightarrow> if 0 < h then h else DEFAULT_HEIGHT
                               | _ \<Rightarrow> DEFAULT_HEIGHT);
                svg2 = setAttribute ''width'' (toStr widthValue @ unit) svg1;
                svg3 = setAttribute ''height'' (toStr heightValue @ unit) svg2;
                svg4 = (if hasAttribute svg3 ''viewBox'' then svg3
                        else setAttribute ''viewBox''
                               (''0 0 '' @ toStr widthValue @ '' '' @ toStr heightValue) svg3)
            in Some (setAttribute ''preserveAspectRatio'' ''xMidYMid meet'' svg4))"

text \<open>What the claim about the sanitized markup speaks of.\<close>

definition hasHandlerAttribute :: "element \<Rightarrow> bool" where
  "hasHandlerAttribute e \<longleftrightarrow> list_ex (\<lambda>a. isHandlerName (fst a)) (attributes e)"

text \<open>
  The aspect lock of the same tool: \<open>parseNumeric\<close> and the two handlers
  \<open>handleWidthChange\<close> and \<open>handleHeightChange\<close> of its \<open>App\<close> component. The names carry the
  suffix \<open>guide\<close> where the first annotation tool has a function or a field of the same
  name.
\<close>

text \<open>
  \<open>parseNumeric\<close> on a string, which is what the text fields pass: \<open>None\<close> is \<open>null\<close>, the
  value of \<open>clampNumber\<close> for a number that is not finite.
\<close>

definition parseNumeric_guide :: "string \<Rightarrow> real option" where
  "parseNumeric_guide v =
     (let trimmed = trim v
      in if trimmed = [] then None
         else (case parseFloat (map (\<lambda>c. if c = CHR '','' then CHR ''.'' else c) trimmed) of
                 Fin x \<Rightarrow> Some x
               | _ \<Rightarrow> None))"

text \<open>The replacement of \<open>/\.$/\<close>: a dot that ends the string is removed.\<close>

definition dropFinalDot :: "string \<Rightarrow> string" where
  "dropFinalDot s = (if s \<noteq> [] \<and> last s = CHR ''.'' then butlast s else s)"

text \<open>The state the two handlers read and write.\<close>

record guideState =
  widthInput_guide :: string
  heightInput_guide :: string
  lockAspect :: bool
  ratioRef :: jsnum

text \<open>
  \<open>ratioRef.current || 1\<close> replaces a ratio that is zero or \<open>NaN\<close>; \<open>Number.isFinite\<close> is
  false of \<open>null\<close>.
\<close>

definition handleWidthChange_guide ::
  "(real \<Rightarrow> nat \<Rightarrow> string) \<Rightarrow> string \<Rightarrow> guideState \<Rightarrow> guideState"
where
  "handleWidthChange_guide toFixed next st =
     (let st1 = st\<lparr>widthInput_guide := next\<rparr>
      in if \<not> lockAspect st then st1
         else
           case parseNumeric_guide next of
             None \<Rightarrow> st1
           | Some numeric \<Rightarrow>
               let ratio = (if truthy (ratioRef st) then ratioRef st else Fin 1);
                   linked = toDouble (js_div (Fin numeric) ratio)
               in (case linked of
                     Fin x \<Rightarrow>
                       st1\<lparr>heightInput_guide := dropFinalDot (dropZeroFraction (toFixed x 3))\<rparr>
                   | _ \<Rightarrow> st1))"

definition handleHeightChange_guide ::
  "(real \<Rightarrow> nat \<Rightarrow> string) \<Rightarrow> string \<Rightarrow> guideState \<Rightarrow> guideState"
where
  "handleHeightChange_guide toFixed next st =
     (let st1 = st\<lparr>heightInput_guide := next\<rparr>
      in if \<not> lockAspect st then st1
         else
           case parseNumeric_guide next of
             None \<Rightarrow> st1
           | Some numeric \<Rightarrow>
               let ratio = (if truthy (ratioRef st) then ratioRef st else Fin 1);
                   linked = toDouble (js_mul (Fin numeric) ratio)
               in (case linked of
                     Fin x \<Rightarrow>
                       st1\<lparr>widthInput_guide := dropFinalDot (dropZeroFraction (toFixed x 3))\<rparr>
                   | _ \<Rightarrow> st1))"

text \<open>
  The background of the same tool: \<open>NEUTRAL_PALETTE\<close>, \<open>normalizeHex\<close>, \<open>hexToRgb\<close>,
  \<open>colorDistance\<close>, \<open>chooseNeutralBackground\<close> and \<open>backgroundBrightness\<close>.
\<close>

definition NEUTRAL_PALETTE_guide :: "string list" where
  "NEUTRAL_PALETTE_guide = [''#f5f5f5'', ''#e7e5e4'', ''#d4d4d8'', ''#a8a29e'', ''#1f2937'']"

text \<open>\<open>None\<close> is \<open>null\<close>; the characters that are not hexadecimal digits are removed.\<close>

definition normalizeHex :: "string \<Rightarrow> string option" where
  "normalizeHex hex =
     (if hex = [] then None
      else
        let cleaned = filter (\<lambda>c. hexDigitValue c \<noteq> None) hex
        in if length cleaned = 3 then Some (concat (map (\<lambda>c. [c, c]) cleaned))
           else if length cleaned = 6 then Some cleaned
           else if length cleaned = 8 then Some (take 6 cleaned)
           else None)"

text \<open>A normalized text has six characters, so the test \<open>!normalized\<close> fails only for \<open>null\<close>.\<close>

definition hexToRgb_guide :: "string \<Rightarrow> rgb option" where
  "hexToRgb_guide hex =
     (case normalizeHex hex of
        None \<Rightarrow> None
      | Some normalized \<Rightarrow>
          Some (RGB (parseInt16 (take 2 normalized))
                    (parseInt16 (take 2 (drop 2 normalized)))
                    (parseInt16 (take 2 (drop 4 normalized)))))"

text \<open>\<open>x ** 2\<close>.\<close>

definition js_square :: "jsnum \<Rightarrow> jsnum" where
  "js_square x = js_mul x x"

definition colorDistance_guide :: "rgb \<Rightarrow> rgb \<Rightarrow> jsnum" where
  "colorDistance_guide a b =
     js_sqrt
       (js_add
          (js_add (js_square (js_sub (rgb_r a) (rgb_r b)))
                  (js_square (js_sub (rgb_g a) (rgb_g b))))
          (js_square (js_sub (rgb_b a) (rgb_b b))))"

text \<open>The ramp with its colours; the colour of an entry that does not parse is \<open>null\<close>.\<close>

definition palette_guide :: "(string \<times> rgb option) list" where
  "palette_guide = map (\<lambda>hex. (hex, hexToRgb_guide hex)) NEUTRAL_PALETTE_guide"

text \<open>
  The score of a candidate, the least distance to a colour of the palette. Reading a
  channel of a \<open>null\<close> colour raises, which is the result \<open>None\<close>.
\<close>

definition score_guide :: "rgb list \<Rightarrow> rgb option \<Rightarrow> jsnum option" where
  "score_guide colors candidate =
     (case candidate of
        None \<Rightarrow> if colors = [] then Some PInf else None
      | Some c \<Rightarrow> Some (foldl (\<lambda>m color. js_min m (colorDistance_guide c color)) PInf colors))"

text \<open>One round of the \<open>forEach\<close> over the ramp: the pair is \<open>(best, bestScore)\<close>.\<close>

definition consider_guide ::
  "rgb list \<Rightarrow> ((string \<times> rgb option) \<times> jsnum) option \<Rightarrow> string \<times> rgb option
     \<Rightarrow> ((string \<times> rgb option) \<times> jsnum) option"
where
  "consider_guide colors acc candidate =
     (case acc of
        None \<Rightarrow> None
      | Some (best, bestScore) \<Rightarrow>
          (case score_guide colors (snd candidate) of
             None \<Rightarrow> None
           | Some s \<Rightarrow> Some (if js_gt s bestScore then (candidate, s) else (best, bestScore))))"

text \<open>\<open>chooseNeutralBackground\<close>; the result \<open>None\<close> is an exception.\<close>

definition chooseNeutralBackground :: "rgb list \<Rightarrow> string option" where
  "chooseNeutralBackground colors =
     (case palette_guide of
        [] \<Rightarrow> None
      | first # _ \<Rightarrow>
          if colors = [] then Some (fst first)
          else map_option (\<lambda>r. fst (fst r))
                 (foldl (consider_guide colors) (Some (first, NInf)) palette_guide))"

definition backgroundBrightness :: "string \<Rightarrow> jsnum" where
  "backgroundBrightness hex =
     (case hexToRgb_guide hex of
        None \<Rightarrow> Fin 255
      | Some c \<Rightarrow>
          js_add (js_add (js_mul (Fin 0.299) (rgb_r c)) (js_mul (Fin 0.587) (rgb_g c)))
                 (js_mul (Fin 0.114) (rgb_b c)))"

text \<open>The entries of the ramp that are strictly brighter than the colour \<open>hex\<close>.\<close>

definition lighter_entries_guide :: "string \<Rightarrow> string list" where
  "lighter_entries_guide hex =
     filter (\<lambda>h. js_gt (backgroundBrightness h) (backgroundBrightness hex)) NEUTRAL_PALETTE_guide"

section \<open>The background shape pruner\<close>

text \<open>
  \<open>parseNumeric\<close>, \<open>approxEqual\<close>, \<open>matchesDimension\<close>, \<open>matchesPosition\<close> and
  \<open>removeCanvasSizedShapes\<close> of \<open>SvgTools.jsx\<close>.
\<close>

definition js_lt :: "jsnum \<Rightarrow> jsnum \<Rightarrow> bool" where
  "js_lt x y = js_gt y x"

definition js_max :: "jsnum \<Rightarrow> jsnum \<Rightarrow> jsnum" where
  "js_max x y = (if x = NaN \<or> y = NaN then NaN else if js_le x y then y else x)"

datatype metrics = Metrics (m_width: jsnum) (m_height: jsnum) (m_minX: jsnum) (m_minY: jsnum)

datatype bbox = BBox (box_x: real) (box_y: real) (box_width: real) (box_height: real)

definition parseNumeric :: "string option \<Rightarrow> jsnum" where
  "parseNumeric v =
     (case v of
        None \<Rightarrow> NaN
      | Some s \<Rightarrow>
          let trimmed = trim s
          in if trimmed = [] then NaN
             else (case parseFloat trimmed of Fin x \<Rightarrow> Fin x | _ \<Rightarrow> NaN))"

definition approxEqual :: "jsnum \<Rightarrow> jsnum \<Rightarrow> jsnum \<Rightarrow> bool" where
  "approxEqual a b tolerance = js_le (js_abs (js_sub a b)) tolerance"

definition matchesDimension :: "string option \<Rightarrow> jsnum \<Rightarrow> jsnum \<Rightarrow> bool" where
  "matchesDimension attr expected tolerance =
     (if \<not> isFinite expected then False
      else
        case attr of
          None \<Rightarrow> False
        | Some a \<Rightarrow>
            let v = trim a
            in if a = [] \<or> v = [] then False
               else if endsWith v ''%'' then
                 (let percentage = parseFloat v
                  in isFinite percentage \<and> js_lt (js_abs (js_sub percentage (Fin 100))) (Fin 0.01))
               else
                 let numeric = parseNumeric (Some v)
                 in if \<not> isFinite numeric then False
                    else approxEqual numeric expected tolerance)"

definition matchesPosition :: "string option \<Rightarrow> jsnum \<Rightarrow> jsnum \<Rightarrow> bool" where
  "matchesPosition attr expected tolerance =
     (case attr of
        None \<Rightarrow> approxEqual (Fin 0) expected tolerance
      | Some a \<Rightarrow>
          let v = trim a
          in if a = [] \<or> v = [] then approxEqual (Fin 0) expected tolerance
             else if endsWith v ''%'' then
               (let percentage = parseFloat v
                in isFinite percentage \<and> js_lt (js_abs percentage) (Fin 0.01))
             else
               let numeric = parseNumeric (Some v)
               in if \<not> isFinite numeric then False
                  else approxEqual numeric expected tolerance)"

definition isCandidate :: "element \<Rightarrow> bool" where
  "isCandidate node \<longleftrightarrow>
     tagName node \<in> set [''rect'', ''path'', ''polygon'', ''polyline'', ''circle'', ''ellipse'',
                          ''g'', ''use'']"

text \<open>
  The body of the \<open>forEach\<close> for a node outside \<open>defs\<close>: whether \<open>node.remove()\<close> is called.
  \<open>getBBox node\<close> is the box the host computes for the node, \<open>None\<close> when the node has no
  \<open>getBBox\<close> function or the call raises.
\<close>

definition matchesCanvas :: "(element \<Rightarrow> bbox option) \<Rightarrow> metrics \<Rightarrow> jsnum \<Rightarrow> element \<Rightarrow> bool" where
  "matchesCanvas getBBox m tolerance node \<longleftrightarrow>
     (toLowerCase (tagName node) = ''rect''
        \<and> matchesDimension (getAttribute node ''width'') (m_width m) tolerance
        \<and> matchesDimension (getAttribute node ''height'') (m_height m) tolerance
        \<and> matchesPosition (getAttribute node ''x'') (m_minX m) tolerance
        \<and> matchesPosition (getAttribute node ''y'') (m_minY m) tolerance)
     \<or> (case getBBox node of
           None \<Rightarrow> False
         | Some box \<Rightarrow>
             approxEqual (Fin (box_width box)) (m_width m) tolerance
             \<and> approxEqual (Fin (box_height box)) (m_height m) tolerance
             \<and> approxEqual (Fin (box_x box)) (m_minX m) tolerance
             \<and> approxEqual (Fin (box_y box)) (m_minY m) tolerance)"

text \<open>
  Whether the \<open>forEach\<close> removes a node; \<open>inDefs\<close> tells that an ancestor of the node is a
  \<open>defs\<close> element (\<open>node.closest("defs")\<close> looks at the node and at its ancestors).
\<close>

definition removed :: "(element \<Rightarrow> bbox option) \<Rightarrow> metrics \<Rightarrow> jsnum \<Rightarrow> bool \<Rightarrow> element \<Rightarrow> bool" where
  "removed getBBox m tolerance inDefs node \<longleftrightarrow>
     isCandidate node \<and> \<not> (tagName node = ''defs'' \<or> inDefs)
     \<and> matchesCanvas getBBox m tolerance node"

text \<open>
  The tree after the \<open>forEach\<close>. The node list is static and in document order: a node is
  examined while its own subtree is still whole, and a node that is examined after one of
  its ancestors was removed changes the detached subtree only.
\<close>

fun prune :: "(element \<Rightarrow> bbox option) \<Rightarrow> metrics \<Rightarrow> jsnum \<Rightarrow> bool \<Rightarrow> element \<Rightarrow> element" where
  "prune getBBox m tolerance inDefs (Element t as x cs) =
     Element t as x
       (map (prune getBBox m tolerance (inDefs \<or> t = ''defs''))
            (filter (\<lambda>c. \<not> removed getBBox m tolerance (inDefs \<or> t = ''defs'') c) cs))"

text \<open>The number of nodes of the list on which \<open>node.remove()\<close> is called.\<close>

fun removeCalls :: "(element \<Rightarrow> bbox option) \<Rightarrow> metrics \<Rightarrow> jsnum \<Rightarrow> bool \<Rightarrow> element \<Rightarrow> nat" where
  "removeCalls getBBox m tolerance inDefs (Element t as x cs) =
     sum_list (map (\<lambda>c. (if removed getBBox m tolerance (inDefs \<or> t = ''defs'') c then 1 else 0)
                          + removeCalls getBBox m tolerance (inDefs \<or> t = ''defs'') c) cs)"

definition tolerance_of :: "metrics \<Rightarrow> jsnum" where
  "tolerance_of m = js_add (js_mul (js_max (m_width m) (m_height m)) (Fin 0.005)) (Fin 0.5)"

text \<open>
  \<open>removeCanvasSizedShapes\<close>; \<open>inDefs\<close> tells that \<open>svgEl\<close> itself lies inside a \<open>defs\<close> element
  of the document.
\<close>

definition removeCanvasSizedShapes ::
  "(element \<Rightarrow> bbox option) \<Rightarrow> bool \<Rightarrow> element \<Rightarrow> metrics \<Rightarrow> element"
where
  "removeCanvasSizedShapes getBBox inDefs svgEl m =
     (if \<not> isFinite (m_width m) \<or> \<not> isFinite (m_height m) then svgEl
      else prune getBBox m (tolerance_of m) inDefs svgEl)"

text \<open>The shapes a run of the pruner removes.\<close>

definition removedShapes ::
  "(element \<Rightarrow> bbox option) \<Rightarrow> bool \<Rightarrow> element \<Rightarrow> metrics \<Rightarrow> nat"
where
  "removedShapes getBBox inDefs svgEl m =
     (if \<not> isFinite (m_width m) \<or> \<not> isFinite (m_height m) then 0
      else removeCalls getBBox m (tolerance_of m) inDefs svgEl)"

text \<open>A host whose answer for a node does not depend on the children of the node.\<close>

definition childFree :: "(element \<Rightarrow> bbox option) \<Rightarrow> bool" where
  "childFree getBBox \<longleftrightarrow>
     (\<forall>t as x cs cs'. getBBox (Element t as x cs) = getBBox (Element t as x cs'))"

text \<open>
  \<open>Number(s)\<close> for a string: the text without the white space around it is read as a
  whole, as a decimal literal or as an integer in base 16, 8 or 2; the empty text is \<open>0\<close>.
\<close>

definition exponentPart :: "string \<Rightarrow> bool" where
  "exponentPart r \<longleftrightarrow>
     (case r of
        [] \<Rightarrow> False
      | e # w \<Rightarrow>
          (e = CHR ''e'' \<or> e = CHR ''E'')
          \<and> (let ds = (case w of
                         [] \<Rightarrow> []
                       | s # w' \<Rightarrow> if s = CHR ''-'' \<or> s = CHR ''+'' then w' else w)
             in ds \<noteq> [] \<and> list_all isDigit ds))"

definition decimalLiteral :: "string \<Rightarrow> bool" where
  "decimalLiteral t \<longleftrightarrow>
     (let u = (case t of
                 [] \<Rightarrow> t
               | c # cs \<Rightarrow> if c = CHR ''-'' \<or> c = CHR ''+'' then cs else t)
      in u = ''Infinity''
         \<or> (let ip = takeWhile isDigit u;
                r1 = dropWhile isDigit u;
                (fp, r2) = (case r1 of
                              [] \<Rightarrow> ([], r1)
                            | c # cs \<Rightarrow>
                                if c = CHR ''.'' then (takeWhile isDigit cs, dropWhile isDigit cs)
                                else ([], r1))
            in (ip \<noteq> [] \<or> fp \<noteq> []) \<and> (r2 = [] \<or> exponentPart r2)))"

text \<open>The value of a non-empty text of digits of a base up to 16.\<close>

definition radixValue :: "nat \<Rightarrow> string \<Rightarrow> nat option" where
  "radixValue b ds =
     (if ds \<noteq> [] \<and> list_all (\<lambda>c. case hexDigitValue c of None \<Rightarrow> False | Some d \<Rightarrow> d < b) ds
      then Some (foldl (\<lambda>acc c. b * acc + (case hexDigitValue c of None \<Rightarrow> 0 | Some d \<Rightarrow> d)) 0 ds)
      else None)"

definition stringToNumber :: "string \<Rightarrow> jsnum" where
  "stringToNumber s =
     (let t = trim s;
          p = toLowerCase (take 2 t)
      in if t = [] then Fin 0
         else if p = ''0x'' \<or> p = ''0o'' \<or> p = ''0b'' then
           (case radixValue (if p = ''0x'' then 16 else if p = ''0o'' then 8 else 2) (drop 2 t) of
              None \<Rightarrow> NaN
            | Some n \<Rightarrow> numberValue (real n))
         else if decimalLiteral t then parseFloat t
         else NaN)"

text \<open>
  \<open>getSvgMetrics\<close>. \<open>baseVal\<close> stands for the host's \<open>svgEl.viewBox?.baseVal\<close>, the rectangle
  the host derives from the \<open>viewBox\<close> attribute (\<open>None\<close> when the host has none).
\<close>

definition getSvgMetrics :: "(element \<Rightarrow> bbox option) \<Rightarrow> element \<Rightarrow> metrics" where
  "getSvgMetrics baseVal svgEl =
     (let width = parseNumeric (getAttribute svgEl ''width'');
          height = parseNumeric (getAttribute svgEl ''height'');
          m0 = Metrics (if isFinite width then width else NaN)
                 (if isFinite height then height else NaN) (Fin 0) (Fin 0);
          m1 = (case getAttribute svgEl ''viewBox'' of
                  None \<Rightarrow> m0
                | Some viewBoxAttr \<Rightarrow>
                    if viewBoxAttr = [] then m0
                    else
                      (case map stringToNumber
                              (filter (\<lambda>p. p \<noteq> [])
                                 (split_ws
                                    (map (\<lambda>c. if c = CHR '','' then CHR '' '' else c) viewBoxAttr))) of
                         [Fin minX, Fin minY, Fin vbWidth, Fin vbHeight] \<Rightarrow>
                           Metrics (if isFinite (m_width m0) then m_width m0 else Fin vbWidth)
                             (if isFinite (m_height m0) then m_height m0 else Fin vbHeight)
                             (Fin minX) (Fin minY)
                       | _ \<Rightarrow> m0))
      in case baseVal svgEl of
           None \<Rightarrow> m1
         | Some vb \<Rightarrow>
             Metrics (if isFinite (m_width m1) then m_width m1 else Fin (box_width vb))
               (if isFinite (m_height m1) then m_height m1 else Fin (box_height vb))
               (Fin (box_x vb)) (Fin (box_y vb)))"

section \<open>The first annotation tool: the neutral background\<close>

text \<open>
  \<open>rgbToHsl\<close>, \<open>hslToHex\<close> and \<open>computeNeutralBackground\<close> of \<open>part_003\<close>. The colour that
  \<open>parseColorToRgb\<close> reads from the host's canvas for a colour text is a parameter.
\<close>

text \<open>The strict equality \<open>x === y\<close> of two numbers.\<close>

definition js_eq :: "jsnum \<Rightarrow> jsnum \<Rightarrow> bool" where
  "js_eq x y \<longleftrightarrow> x \<noteq> NaN \<and> x = y"

text \<open>The remainder \<open>x % y\<close>, which has the sign of \<open>x\<close>.\<close>

fun js_rem :: "jsnum \<Rightarrow> jsnum \<Rightarrow> jsnum" where
  "js_rem (Fin x) (Fin y) =
     (if y = 0 then NaN
      else Fin (x - y * of_int (if 0 \<le> x / y then \<lfloor>x / y\<rfloor> else \<lceil>x / y\<rceil>)))"
| "js_rem (Fin x) PInf = Fin x"
| "js_rem (Fin x) NInf = Fin x"
| "js_rem _ _ = NaN"

text \<open>\<open>Math.round\<close>: the nearest integer, a half rounded up.\<close>

fun js_round :: "jsnum \<Rightarrow> jsnum" where
  "js_round (Fin x) = Fin (of_int \<lfloor>x + 1 / 2\<rfloor>)"
| "js_round v = v"

definition rgbToHsl :: "jsnum \<Rightarrow> jsnum \<Rightarrow> jsnum \<Rightarrow> jsnum \<times> jsnum \<times> jsnum" where
  "rgbToHsl r g b =
     (let rn = js_div r (Fin 255);
          gn = js_div g (Fin 255);
          bn = js_div b (Fin 255);
          mx = js_max (js_max rn gn) bn;
          mn = js_min (js_min rn gn) bn;
          delta = js_sub mx mn;
          l = js_div (js_add mx mn) (Fin 2)
      in if delta = Fin 0 then (Fin 0, Fin 0, l)
         else
           let s = js_div delta (js_sub (Fin 1) (js_abs (js_sub (js_mul (Fin 2) l) (Fin 1))));
               h0 = (if js_eq mx rn then js_rem (js_div (js_sub gn bn) delta) (Fin 6)
                     else if js_eq mx gn then js_add (js_div (js_sub bn rn) delta) (Fin 2)
                     else js_add (js_div (js_sub rn gn) delta) (Fin 4));
               h1 = js_mul h0 (Fin 60);
               h = (if js_lt h1 (Fin 0) then js_add h1 (Fin 360) else h1)
           in (h, s, l))"

text \<open>
  \<open>value.toString(16).padStart(2, "0")\<close> for a value that \<open>Math.round\<close> returned, an integer
  when it is finite.
\<close>

function hexOfNat :: "nat \<Rightarrow> string" where
  "hexOfNat n =
     (if n < 16 then [''0123456789abcdef'' ! n]
      else hexOfNat (n div 16) @ [''0123456789abcdef'' ! (n mod 16)])"
  by pat_completeness auto
termination
  by (relation "measure id") auto

definition toHex :: "jsnum \<Rightarrow> string" where
  "toHex v =
     (let digits = (case v of
                      NaN \<Rightarrow> ''NaN''
                    | PInf \<Rightarrow> ''Infinity''
                    | NInf \<Rightarrow> ''-Infinity''
                    | Fin x \<Rightarrow>
                        if x < 0 then ''-'' @ hexOfNat (nat \<lfloor>- x\<rfloor>) else hexOfNat (nat \<lfloor>x\<rfloor>))
      in replicate (2 - length digits) CHR ''0'' @ digits)"

definition hslToHex :: "jsnum \<Rightarrow> jsnum \<Rightarrow> jsnum \<Rightarrow> string" where
  "hslToHex h s l =
     (let c = js_mul (js_sub (Fin 1) (js_abs (js_sub (js_mul (Fin 2) l) (Fin 1)))) s;
          x = js_mul c
                (js_sub (Fin 1)
                   (js_abs (js_sub (js_rem (js_div h (Fin 60)) (Fin 2)) (Fin 1))));
          m = js_sub l (js_div c (Fin 2));
          (rPrime, gPrime, bPrime) =
             (if js_le (Fin 0) h \<and> js_lt h (Fin 60) then (c, x, Fin 0)
              else if js_le (Fin 60) h \<and> js_lt h (Fin 120) then (x, c, Fin 0)
              else if js_le (Fin 120) h \<and> js_lt h (Fin 180) then (Fin 0, c, x)
              else if js_le (Fin 180) h \<and> js_lt h (Fin 240) then (Fin 0, x, c)
              else if js_le (Fin 240) h \<and> js_lt h (Fin 300) then (x, Fin 0, c)
              else (c, Fin 0, x));
          r = js_round (js_mul (js_add rPrime m) (Fin 255));
          g = js_round (js_mul (js_add gPrime m) (Fin 255));
          b = js_round (js_mul (js_add bPrime m) (Fin 255))
      in ''#'' @ toHex r @ toHex g @ toHex b)"

text \<open>
  \<open>computeNeutralBackground\<close> in a browser: the result is the pair of its \<open>color\<close> and its
  \<open>lightness\<close>. A colour text for which \<open>parseColorToRgb\<close> gives \<open>None\<close> (\<open>undefined\<close>) is
  dropped.
\<close>

definition computeNeutralBackground ::
  "(string \<Rightarrow> rgb option) \<Rightarrow> string list \<Rightarrow> string \<times> real"
where
  "computeNeutralBackground parseColorToRgb colors =
     (let fallback = (''#f5f5f5'', 0.94)
      in if colors = [] then fallback
         else
           let rgbs = List.map_filter parseColorToRgb colors
           in if rgbs = [] then fallback
              else
                let sum = foldl (\<lambda>acc c. RGB (js_add (rgb_r acc) (rgb_r c))
                                            (js_add (rgb_g acc) (rgb_g c))
                                            (js_add (rgb_b acc) (rgb_b c)))
                            (RGB (Fin 0) (Fin 0) (Fin 0)) rgbs;
                    n = Fin (real (length rgbs));
                    (h, s, l) = rgbToHsl (js_div (rgb_r sum) n) (js_div (rgb_g sum) n)
                                  (js_div (rgb_b sum) n);
                    lightness = (if js_gt l (Fin 0.7) then 0.25
                                 else if js_lt l (Fin 0.3) then 0.9 else 0.86)
                in (hslToHex h (Fin 0) (Fin lightness), lightness))"

section \<open>Notions used to state the properties\<close>

text \<open>
  The host reports markup it cannot parse by a \<open>parsererror\<close> element in the document it
  returns; this is what the tools test.
\<close>

definition unparseable :: "element option \<Rightarrow> bool" where
  "unparseable doc \<longleftrightarrow> querySelector doc ''parsererror'' \<noteq> None"

definition rootIsSvg :: "element option \<Rightarrow> bool" where
  "rootIsSvg doc \<longleftrightarrow> (case doc of None \<Rightarrow> False | Some e \<Rightarrow> toLowerCase (tagName e) = ''svg'')"

fun overlayOf :: "preview \<Rightarrow> overlay option" where
  "overlayOf (ErrorAlert msg) = None"
| "overlayOf (PreviewStack bg content ov) = ov"

fun contentOf :: "preview \<Rightarrow> string option" where
  "contentOf (ErrorAlert msg) = None"
| "contentOf (PreviewStack bg content ov) = Some content"

text \<open>
  A root without a \<open>viewBox\<close> and without a usable width and height, as the first tool
  reads them (\<open>lacksSize\<close>) and as the second tool does (\<open>lacksSize2\<close>: \<open>parseLength2 a 0 = 0\<close>
  holds when the attribute gives no number or gives zero).
\<close>

definition lacksSize :: "element \<Rightarrow> bool" where
  "lacksSize svgEl \<longleftrightarrow>
     (getAttribute svgEl ''viewBox'' = None \<or> getAttribute svgEl ''viewBox'' = Some [])
     \<and> falsy (parseLength (getAttribute svgEl ''width''))
     \<and> falsy (parseLength (getAttribute svgEl ''height''))"

definition lacksSize2 :: "element \<Rightarrow> bool" where
  "lacksSize2 svg \<longleftrightarrow>
     readViewBox (getAttribute svg ''viewBox'') = None
     \<and> parseLength2 (getAttribute svg ''width'') 0 = 0
     \<and> parseLength2 (getAttribute svg ''height'') 0 = 0"

text \<open>
  The edits of a dimension field that leave the linked field alone: the typed value is not
  a number, the retained ratio is not finite or is zero, or the derived value is not
  finite or not positive.
\<close>

definition degenerateEdit :: "jsnum \<Rightarrow> jsnum \<Rightarrow> jsnum \<Rightarrow> bool" where
  "degenerateEdit numeric ratio derived \<longleftrightarrow>
     \<not> isFinite numeric \<or> \<not> isFinite ratio \<or> ratio = Fin 0
     \<or> \<not> isFinite derived \<or> \<not> js_gt derived (Fin 0)"

text \<open>
  The first of two optional numbers that is a number other than zero, or else a default:
  the way the first tool resolves a dimension from the attribute and the \<open>viewBox\<close>.
\<close>

definition firstUsable :: "real option \<Rightarrow> real option \<Rightarrow> real \<Rightarrow> real" where
  "firstUsable a b d =
     (case a of
        Some x \<Rightarrow>
          if x \<noteq> 0 then x else (case b of Some y \<Rightarrow> if y \<noteq> 0 then y else d | None \<Rightarrow> d)
      | None \<Rightarrow> (case b of Some y \<Rightarrow> if y \<noteq> 0 then y else d | None \<Rightarrow> d))"

text \<open>
  The number at a position of the \<open>viewBox\<close> attribute split at white space, when it is
  finite, and the numbers of the attribute split at spaces and commas.
\<close>

definition viewBoxNumber :: "element \<Rightarrow> nat \<Rightarrow> real option" where
  "viewBoxNumber svgEl i =
     (case getAttribute svgEl ''viewBox'' of
        None \<Rightarrow> None
      | Some vb \<Rightarrow> finiteAt (map parseFloat (split_ws vb)) i)"

definition viewBoxNumbers2 :: "element \<Rightarrow> jsnum list" where
  "viewBoxNumbers2 svg =
     (case getAttribute svg ''viewBox'' of
        None \<Rightarrow> []
      | Some a \<Rightarrow> map parseFloat (splitRuns (\<lambda>c. c = CHR '' '' \<or> c = CHR '','') a))"

text \<open>The ratio the guide computes with: \<open>1\<close> in place of a ratio that is zero or \<open>NaN\<close>.\<close>

definition usedRatio :: "jsnum \<Rightarrow> jsnum" where
  "usedRatio r = (if r = NaN \<or> r = Fin 0 then Fin 1 else r)"

section \<open>Properties of the neutral background selection\<close>

lemma hexDigitValue_simps:
  "hexDigitValue CHR ''0'' = Some 0" "hexDigitValue CHR ''1'' = Some 1"
  "hexDigitValue CHR ''2'' = Some 2"
  "hexDigitValue CHR ''3'' = Some 3" "hexDigitValue CHR ''4'' = Some 4"
  "hexDigitValue CHR ''5'' = Some 5" "hexDigitValue CHR ''6'' = Some 6"
  "hexDigitValue CHR ''7'' = Some 7" "hexDigitValue CHR ''8'' = Some 8"
  "hexDigitValue CHR ''9'' = Some 9" "hexDigitValue CHR ''a'' = Some 10"
  "hexDigitValue CHR ''b'' = Some 11" "hexDigitValue CHR ''c'' = Some 12"
  "hexDigitValue CHR ''d'' = Some 13" "hexDigitValue CHR ''e'' = Some 14"
  "hexDigitValue CHR ''f'' = Some 15"
  by (simp_all add: hexDigitValue_def)

lemmas hexToRgb_eval =
  hexToRgb_def parseInt16_def trim_def trimStart_def startsWith_def
  isWhiteSpace_def toLowerCase_def toLowerCaseChar_def hexDigitValue_simps Let_def

lemma palette_eq:
  "palette =
     [(''#f8fafc'', RGB (Fin 248) (Fin 250) (Fin 252)),
      (''#f3f4f6'', RGB (Fin 243) (Fin 244) (Fin 246)),
      (''#e5e7eb'', RGB (Fin 229) (Fin 231) (Fin 235)),
      (''#d1d5db'', RGB (Fin 209) (Fin 213) (Fin 219)),
      (''#cbd5f5'', RGB (Fin 203) (Fin 213) (Fin 245)),
      (''#94a3b8'', RGB (Fin 148) (Fin 163) (Fin 184))]"
  by (simp add: palette_def NEUTRAL_PALETTE_def List.map_filter_def hexToRgb_eval)

lemma isFinite_iff: "isFinite x \<longleftrightarrow> (\<exists>v. x = Fin v)"
  by (cases x) auto

lemma toLinear_Fin_hi: "10.0164 < x \<Longrightarrow> toLinear (Fin x) = Fin (lin x)"
  by (simp add: toLinear_def lin_def Let_def)

lemma toLinear_Fin_zero: "toLinear (Fin 0) = Fin 0"
  by (simp add: toLinear_def Let_def)

lemma toLinear_finite: "isFinite (toLinear (Fin x))"
  by (simp add: toLinear_def Let_def)

lemma getLuminance_hi:
  "10.0164 < x \<Longrightarrow> 10.0164 < y \<Longrightarrow> 10.0164 < z \<Longrightarrow>
   getLuminance (RGB (Fin x) (Fin y) (Fin z)) = Fin (0.2126 * lin x + 0.7152 * lin y + 0.0722 * lin z)"
  by (simp add: getLuminance_def toLinear_Fin_hi)

lemma getLuminance_finite: "finite_rgb c \<Longrightarrow> isFinite (getLuminance c)"
proof -
  assume "finite_rgb c"
  then obtain x y z where c: "c = RGB (Fin x) (Fin y) (Fin z)"
    by (cases c) (auto simp: finite_rgb_def isFinite_iff)
  obtain a b d where "toLinear (Fin x) = Fin a" "toLinear (Fin y) = Fin b" "toLinear (Fin z) = Fin d"
    using toLinear_finite isFinite_iff by blast
  then show ?thesis by (simp add: c getLuminance_def)
qed

lemma colorDistance_finite:
  "finite_rgb a \<Longrightarrow> finite_rgb b \<Longrightarrow> isFinite (colorDistance a b)"
  by (cases a; cases b) (auto simp: finite_rgb_def isFinite_iff colorDistance_def js_sub_def not_less)

lemma sum_luminance_finite:
  "\<forall>c\<in>set colors. finite_rgb c \<Longrightarrow>
   isFinite (foldl (\<lambda>sum color. js_add sum (getLuminance color)) (Fin s) colors)"
proof (induction colors arbitrary: s)
  case Nil
  then show ?case by simp
next
  case (Cons c cs)
  then obtain v where "getLuminance c = Fin v"
    using getLuminance_finite isFinite_iff by (metis list.set_intros(1))
  with Cons show ?case by simp
qed

lemma avgLuminance_finite:
  "colors \<noteq> [] \<Longrightarrow> \<forall>c\<in>set colors. finite_rgb c \<Longrightarrow> isFinite (avgLuminance colors)"
proof -
  assume ne: "colors \<noteq> []" and fin: "\<forall>c\<in>set colors. finite_rgb c"
  obtain v where "foldl (\<lambda>sum color. js_add sum (getLuminance color)) (Fin 0) colors = Fin v"
    using sum_luminance_finite [OF fin] isFinite_iff by blast
  with ne show ?thesis by (simp add: avgLuminance_def)
qed

lemma min_distance_fold_finite:
  "\<forall>c\<in>set colors. finite_rgb c \<Longrightarrow> finite_rgb a \<Longrightarrow>
   isFinite (foldl (\<lambda>m color. js_min m (colorDistance a color)) (Fin s) colors)"
proof (induction colors arbitrary: s)
  case Nil
  then show ?case by simp
next
  case (Cons c cs)
  then obtain v where "colorDistance a c = Fin v"
    using colorDistance_finite isFinite_iff by (metis list.set_intros(1))
  with Cons show ?case by simp
qed

lemma minDistance_finite:
  "colors \<noteq> [] \<Longrightarrow> \<forall>c\<in>set colors. finite_rgb c \<Longrightarrow> finite_rgb a \<Longrightarrow>
   isFinite (minDistance a colors)"
proof -
  assume ne: "colors \<noteq> []" and fin: "\<forall>c\<in>set colors. finite_rgb c" and a: "finite_rgb a"
  obtain c cs where cs: "colors = c # cs" using ne by (cases colors) auto
  obtain v where v: "colorDistance a c = Fin v"
    using colorDistance_finite [OF a] fin cs isFinite_iff by (metis list.set_intros(1))
  have "\<forall>c\<in>set cs. finite_rgb c" using fin cs by simp
  from min_distance_fold_finite [OF this a] show ?thesis
    by (simp add: minDistance_def cs v)
qed

lemma score_finite:
  assumes "colors \<noteq> []" "\<forall>c\<in>set colors. finite_rgb c" "finite_rgb a"
  shows "isFinite (score colors a)"
proof -
  obtain m where m: "minDistance a colors = Fin m"
    using minDistance_finite [OF assms] isFinite_iff by blast
  obtain l where l: "getLuminance a = Fin l"
    using getLuminance_finite [OF assms(3)] isFinite_iff by blast
  obtain v where v: "avgLuminance colors = Fin v"
    using avgLuminance_finite [OF assms(1,2)] isFinite_iff by blast
  show ?thesis by (simp add: score_def m l v js_sub_def)
qed

lemma js_le_refl_Fin: "isFinite x \<Longrightarrow> js_le x x"
  by (cases x) auto

lemma js_le_trans_Fin: "js_le x y \<Longrightarrow> js_le y z \<Longrightarrow> isFinite x \<Longrightarrow> isFinite y \<Longrightarrow> isFinite z \<Longrightarrow> js_le x z"
  by (cases x; cases y; cases z) auto

lemma foldl_consider_candidate:
  assumes "\<forall>c\<in>set cs. isFinite (score colors (snd c))" "cs \<noteq> []"
  shows "\<exists>best\<in>set cs. foldl (consider_candidate colors) (b0, NInf) cs = (Some best, score colors (snd best))
           \<and> (\<forall>c\<in>set cs. js_le (score colors (snd c)) (score colors (snd best)))"
  using assms
proof (induction cs rule: rev_induct)
  case Nil
  then show ?case by simp
next
  case (snoc x xs)
  obtain sx where sx: "score colors (snd x) = Fin sx"
    using snoc.prems isFinite_iff by auto
  show ?case
  proof (cases "xs = []")
    case True
    then show ?thesis by (simp add: consider_candidate_def sx)
  next
    case False
    with snoc obtain best where b: "best \<in> set xs"
      "foldl (consider_candidate colors) (b0, NInf) xs = (Some best, score colors (snd best))"
      "\<forall>c\<in>set xs. js_le (score colors (snd c)) (score colors (snd best))"
      by auto
    obtain sb where sb: "score colors (snd best) = Fin sb"
      using snoc.prems b(1) isFinite_iff by auto
    have step: "foldl (consider_candidate colors) (b0, NInf) (xs @ [x]) =
                  (if sx > sb then (Some x, Fin sx) else (Some best, Fin sb))"
      by (simp add: b(2) sb sx consider_candidate_def)
    show ?thesis
    proof (cases "sx > sb")
      case True
      have "\<forall>c\<in>set xs. js_le (score colors (snd c)) (Fin sx)"
      proof
        fix c assume c: "c \<in> set xs"
        then obtain sc where sc: "score colors (snd c) = Fin sc"
          using snoc.prems isFinite_iff by auto
        from b(3) c sc sb have "sc \<le> sb" by auto
        with True show "js_le (score colors (snd c)) (Fin sx)" by (simp add: sc)
      qed
      with True show ?thesis
        unfolding step by (simp add: sx)
    next
      case False
      have "js_le (score colors (snd x)) (score colors (snd best))"
        using False by (simp add: sx sb)
      with False b(1,3) show ?thesis
        unfolding step by (auto simp: sb)
    qed
  qed
qed

lemma lin_strict_mono: "0 \<le> x \<Longrightarrow> x < y \<Longrightarrow> lin x < lin y"
  unfolding lin_def by (rule powr_less_mono2) (simp_all add: divide_strict_right_mono)

lemma lin_le_one: "0 \<le> x \<Longrightarrow> x \<le> 255 \<Longrightarrow> lin x \<le> 1"
  unfolding lin_def by (rule powr_le1) (simp_all add: field_simps)

lemma lin_ge_cube: "0 \<le> x \<Longrightarrow> x \<le> 255 \<Longrightarrow> ((x / 255 + 0.055) / 1.055) ^ 3 \<le> lin x"
proof -
  assume x: "0 \<le> x" "x \<le> 255"
  let ?t = "(x / 255 + 0.055) / 1.055"
  have t: "0 < ?t" "?t \<le> 1" using x by (simp_all add: field_simps)
  have "?t powr 3 \<le> ?t powr 2.4"
    by (rule powr_mono') (use t in simp_all)
  moreover have "?t powr 3 = ?t ^ 3"
    using t(1) powr_numeral [of ?t "num.Bit1 num.One"] by simp
  ultimately show ?thesis by (simp add: lin_def)
qed

lemma lin_le_square: "0 \<le> x \<Longrightarrow> x \<le> 255 \<Longrightarrow> lin x \<le> ((x / 255 + 0.055) / 1.055) ^ 2"
proof -
  assume x: "0 \<le> x" "x \<le> 255"
  let ?t = "(x / 255 + 0.055) / 1.055"
  have t: "0 < ?t" "?t \<le> 1" using x by (simp_all add: field_simps)
  have "?t powr 2.4 \<le> ?t powr 2"
    by (rule powr_mono') (use t in simp_all)
  moreover have "?t powr 2 = ?t ^ 2"
    using t(1) powr_numeral [of ?t "num.Bit0 num.One"] by simp
  ultimately show ?thesis by (simp add: lin_def)
qed

lemma hexToRgb_f3: "hexToRgb ''#f3f4f6'' = Some (RGB (Fin 243) (Fin 244) (Fin 246))"
  by (simp add: hexToRgb_eval)

lemma lum_less:
  assumes "0 \<le> x" "x < x'" "0 \<le> y" "y < y'" "0 \<le> z" "z < z'"
  shows "0.2126 * lin x + 0.7152 * lin y + 0.0722 * lin z
       < 0.2126 * lin x' + 0.7152 * lin y' + 0.0722 * lin z'"
  using lin_strict_mono [OF assms(1,2)] lin_strict_mono [OF assms(3,4)]
    lin_strict_mono [OF assms(5,6)] by simp

lemma chooseNeutralColor_empty:
  "chooseNeutralColor [] = ''#f3f4f6'' \<and> NEUTRAL_PALETTE ! 1 = ''#f3f4f6''
   \<and> map fst (lighter_entries ''#f3f4f6'') = [''#f8fafc'']"
proof -
  have 1: "chooseNeutralColor [] = ''#f3f4f6''"
    by (simp add: chooseNeutralColor_def palette_eq hex_or_default_def)
  have 2: "NEUTRAL_PALETTE ! 1 = ''#f3f4f6''"
    by (simp add: NEUTRAL_PALETTE_def)
  have 3: "map fst (lighter_entries ''#f3f4f6'') = [''#f8fafc'']"
    using lum_less [of 243 248 244 250 246 252] lum_less [of 229 243 231 244 235 246]
      lum_less [of 209 243 213 244 219 246] lum_less [of 203 243 213 244 245 246]
      lum_less [of 148 243 163 244 184 246]
    by (simp add: lighter_entries_def hexToRgb_f3 palette_eq getLuminance_hi)
  from 1 2 3 show ?thesis by simp
qed

lemma hexDigitValue_hash: "hexDigitValue CHR ''#'' = None"
  by (simp add: hexDigitValue_def)

lemmas hexToRgb_guide_eval =
  hexToRgb_guide_def normalizeHex_def parseInt16_def trimStart_def isWhiteSpace_def
  startsWith_def toLowerCase_def toLowerCaseChar_def hexDigitValue_simps hexDigitValue_hash
  Let_def

lemma palette_guide_eq:
  "palette_guide =
     [(''#f5f5f5'', Some (RGB (Fin 245) (Fin 245) (Fin 245))),
      (''#e7e5e4'', Some (RGB (Fin 231) (Fin 229) (Fin 228))),
      (''#d4d4d8'', Some (RGB (Fin 212) (Fin 212) (Fin 216))),
      (''#a8a29e'', Some (RGB (Fin 168) (Fin 162) (Fin 158))),
      (''#1f2937'', Some (RGB (Fin 31) (Fin 41) (Fin 55)))]"
  by (simp add: palette_guide_def NEUTRAL_PALETTE_guide_def hexToRgb_guide_eval)

lemma chooseNeutralBackground_empty: "chooseNeutralBackground [] = Some ''#f5f5f5''"
  by (simp add: chooseNeutralBackground_def palette_guide_eq)

lemma brightness_guide:
  "backgroundBrightness ''#f5f5f5'' = Fin 245"
  "backgroundBrightness ''#e7e5e4'' = Fin 229.484"
  "backgroundBrightness ''#d4d4d8'' = Fin 212.456"
  "backgroundBrightness ''#a8a29e'' = Fin 163.338"
  "backgroundBrightness ''#1f2937'' = Fin 39.606"
  by (simp_all add: backgroundBrightness_def hexToRgb_guide_eval)

lemma lighter_guide:
  "lighter_entries_guide ''#f5f5f5'' = []"
  "lighter_entries_guide ''#e7e5e4'' = [''#f5f5f5'']"
  by (simp_all add: lighter_entries_guide_def NEUTRAL_PALETTE_guide_def brightness_guide)

lemma computeNeutralBackground_empty:
  "computeNeutralBackground parseColorToRgb [] = (''#f5f5f5'', 0.94)"
  by (simp add: computeNeutralBackground_def)

text \<open>
  Claim C6, as amended. For the empty palette each selector returns its own default.
  \<open>chooseNeutralColor\<close> returns \<open>#f3f4f6\<close>, the second entry of its ramp, which is the
  second-lightest: exactly one entry of the ramp, the first one, has a strictly greater
  luminance. \<open>chooseNeutralBackground\<close> returns \<open>#f5f5f5\<close>, the first entry of its own ramp,
  which is the lightest: no entry of that ramp is brighter. \<open>computeNeutralBackground\<close>
  has no ramp and returns the constant \<open>#f5f5f5\<close> with the lightness \<open>0.94\<close>.
\<close>

theorem empty_palette_default_per_selector:
  "chooseNeutralColor [] = ''#f3f4f6'' \<and> NEUTRAL_PALETTE ! 1 = ''#f3f4f6''
   \<and> map fst (lighter_entries ''#f3f4f6'') = [''#f8fafc'']
   \<and> chooseNeutralBackground [] = Some ''#f5f5f5'' \<and> NEUTRAL_PALETTE_guide ! 0 = ''#f5f5f5''
   \<and> lighter_entries_guide ''#f5f5f5'' = []
   \<and> computeNeutralBackground parseColorToRgb [] = (''#f5f5f5'', 0.94)"
proof -
  have "NEUTRAL_PALETTE_guide ! 0 = ''#f5f5f5''"
    by (simp add: NEUTRAL_PALETTE_guide_def)
  with chooseNeutralColor_empty chooseNeutralBackground_empty lighter_guide(1)
    computeNeutralBackground_empty [of parseColorToRgb]
  show ?thesis by simp
qed

text \<open>
  Claim C6 as stated fails for the dimension guide: for the empty palette
  \<open>chooseNeutralBackground\<close> returns the lightest entry of its ramp, not the second-lightest,
  which is \<open>#e7e5e4\<close>.
\<close>

theorem guide_returns_lightest_entry:
  "chooseNeutralBackground [] = Some ''#f5f5f5'' \<and> lighter_entries_guide ''#f5f5f5'' = []
   \<and> lighter_entries_guide ''#e7e5e4'' = [''#f5f5f5'']
   \<and> chooseNeutralBackground [] \<noteq> Some ''#e7e5e4''"
  by (simp add: chooseNeutralBackground_empty lighter_guide)

text \<open>
  \<open>computeNeutralBackground\<close> on palettes that are not empty: the default again when no
  colour text parses, and a grey computed from the mean colour otherwise.
\<close>

lemma computeNeutralBackground_unparsed:
  "List.map_filter parseColorToRgb colors = []
     \<Longrightarrow> computeNeutralBackground parseColorToRgb colors = (''#f5f5f5'', 0.94)"
  by (simp add: computeNeutralBackground_def Let_def)

lemma rgbToHsl_black: "rgbToHsl (Fin 0) (Fin 0) (Fin 0) = (Fin 0, Fin 0, Fin 0)"
  by (simp add: rgbToHsl_def js_sub_def js_max_def Let_def)

lemma toHex_230: "toHex (Fin 230) = ''e6''"
  by (simp add: toHex_def)

lemma hslToHex_grey: "hslToHex (Fin 0) (Fin 0) (Fin 0.9) = ''#e6e6e6''"
proof -
  have c: "js_mul (js_sub (Fin 1) (js_abs (js_sub (js_mul (Fin 2) (Fin 0.9)) (Fin 1)))) (Fin 0)
           = Fin 0"
    by (simp add: js_sub_def)
  have x: "js_mul (Fin 0)
             (js_sub (Fin 1) (js_abs (js_sub (js_rem (js_div (Fin 0) (Fin 60)) (Fin 2)) (Fin 1))))
           = Fin 0"
    by (simp add: js_sub_def)
  have r: "js_round (js_mul (js_add (Fin 0) (js_sub (Fin 0.9) (js_div (Fin 0) (Fin 2)))) (Fin 255))
           = Fin 230"
    by (simp add: js_sub_def)
  show ?thesis
    unfolding hslToHex_def c Let_def x
    by (simp add: js_lt_def r toHex_230 del: js_round.simps js_mul.simps js_add.simps js_div.simps)
qed

lemma computeNeutralBackground_black:
  "computeNeutralBackground (\<lambda>c. Some (RGB (Fin 0) (Fin 0) (Fin 0))) [''#000'']
     = (''#e6e6e6'', 0.9)"
  by (simp add: computeNeutralBackground_def List.map_filter_def rgbToHsl_black js_lt_def
      hslToHex_grey)

lemma palette_finite: "\<forall>c\<in>set palette. finite_rgb (snd c)"
  by (simp add: palette_eq finite_rgb_def)

lemma chooseNeutralColor_best:
  assumes "colors \<noteq> []" and "\<forall>c\<in>set colors. finite_rgb c"
  shows "\<exists>best\<in>set palette. chooseNeutralColor colors = fst best
           \<and> (\<forall>c\<in>set palette. js_le (score colors (snd c)) (score colors (snd best)))"
proof -
  have fin: "\<forall>c\<in>set palette. isFinite (score colors (snd c))"
    using score_finite [OF assms] palette_finite by blast
  have ne: "palette \<noteq> []" by (simp add: palette_eq)
  obtain best where b: "best \<in> set palette"
    "foldl (consider_candidate colors) (case palette of [] \<Rightarrow> None | e # _ \<Rightarrow> Some e, NInf) palette
       = (Some best, score colors (snd best))"
    "\<forall>c\<in>set palette. js_le (score colors (snd c)) (score colors (snd best))"
    using foldl_consider_candidate [OF fin ne] by blast
  have "fst best \<noteq> []" using b(1) by (auto simp: palette_eq)
  then have "chooseNeutralColor colors = fst best"
    using assms(1) by (simp add: chooseNeutralColor_def b(2) hex_or_default_def)
  with b show ?thesis by blast
qed

text \<open>
  Claim C7, as amended. For every non-empty palette of colours with finite channels, the
  ramp entry that \<open>chooseNeutralColor\<close> returns has the greatest weighted score
  (\<open>0.8\<close> times the minimum distance to the palette plus \<open>260\<close> times the distance of its
  luminance from the mean luminance of the palette) among the ramp entries.
\<close>

theorem chooseNeutralColor_maximises_score:
  assumes "colors \<noteq> []" and "\<forall>c\<in>set colors. finite_rgb c"
  shows "\<exists>best\<in>set palette. chooseNeutralColor colors = fst best
           \<and> (\<forall>c\<in>set palette. js_le (score colors (snd c)) (score colors (snd best)))"
  using assms by (rule chooseNeutralColor_best)

text \<open>The theorem of C7 at the one-colour palette \<open>#ffff00\<close>.\<close>

theorem chooseNeutralColor_maximises_score_witness:
  "\<exists>best\<in>set palette. chooseNeutralColor [RGB (Fin 255) (Fin 255) (Fin 0)] = fst best
     \<and> (\<forall>c\<in>set palette. js_le (score [RGB (Fin 255) (Fin 255) (Fin 0)] (snd c))
                                (score [RGB (Fin 255) (Fin 255) (Fin 0)] (snd best)))"
  by (rule chooseNeutralColor_maximises_score) (simp_all add: finite_rgb_def)

lemma lum_yellow: "getLuminance (RGB (Fin 255) (Fin 255) (Fin 0)) = Fin 0.9278"
  by (simp add: getLuminance_def toLinear_def Let_def)

lemma avg_yellow: "avgLuminance [RGB (Fin 255) (Fin 255) (Fin 0)] = Fin 0.9278"
  by (simp add: avgLuminance_def lum_yellow)

lemma minDistance_yellow:
  "minDistance (RGB (Fin x) (Fin y) (Fin z)) [RGB (Fin 255) (Fin 255) (Fin 0)]
     = Fin (sqrt ((x - 255) * (x - 255) + (y - 255) * (y - 255) + z * z))"
proof -
  have "0 \<le> (x - 255) * (x - 255) + (y - 255) * (y - 255) + z * z" by simp
  then show ?thesis
    by (simp add: minDistance_def colorDistance_def js_sub_def not_less)
qed

lemma score_yellow:
  assumes "10.0164 < x" "10.0164 < y" "10.0164 < z"
  shows "score [RGB (Fin 255) (Fin 255) (Fin 0)] (RGB (Fin x) (Fin y) (Fin z))
     = Fin (sqrt ((x - 255) * (x - 255) + (y - 255) * (y - 255) + z * z) * 0.8
            + \<bar>0.2126 * lin x + 0.7152 * lin y + 0.0722 * lin z - 0.9278\<bar> * 260)"
  by (simp add: score_def avg_yellow minDistance_yellow getLuminance_hi [OF assms] js_sub_def)

lemma lin_mono: "0 \<le> x \<Longrightarrow> x \<le> y \<Longrightarrow> lin x \<le> lin y"
  using lin_strict_mono [of x y] by (cases "x = y") auto

lemma lin_203: "0.52 \<le> lin 203"
proof -
  have "(0.52::real) \<le> ((203 / 255 + 0.055) / 1.055) ^ 3"
    by (simp add: power3_eq_cube)
  also have "\<dots> \<le> lin 203" by (rule lin_ge_cube) simp_all
  finally show ?thesis .
qed

lemma lighter_score_upper:
  assumes x: "203 \<le> x" "x \<le> 255" and y: "203 \<le> y" "y \<le> 255" and z: "203 \<le> z" "z \<le> 255"
    and d: "(x - 255) * (x - 255) + (y - 255) * (y - 255) + z * z \<le> 64516"
  shows "sqrt ((x - 255) * (x - 255) + (y - 255) * (y - 255) + z * z) * 0.8
            + \<bar>0.2126 * lin x + 0.7152 * lin y + 0.0722 * lin z - 0.9278\<bar> * 260 \<le> 309.228"
proof -
  have lo: "0.52 \<le> lin x" "0.52 \<le> lin y" "0.52 \<le> lin z"
    using lin_203 lin_mono [of 203 x] lin_mono [of 203 y] lin_mono [of 203 z] x y z by auto
  have hi: "lin x \<le> 1" "lin y \<le> 1" "lin z \<le> 1"
    using lin_le_one x y z by auto
  have l: "\<bar>0.2126 * lin x + 0.7152 * lin y + 0.0722 * lin z - 0.9278\<bar> \<le> 0.4078"
    unfolding abs_le_iff using lo hi by (simp; linarith)
  have "sqrt ((x - 255) * (x - 255) + (y - 255) * (y - 255) + z * z) \<le> sqrt (254 ^ 2)"
    using d by (intro real_sqrt_le_mono) simp
  then have s: "sqrt ((x - 255) * (x - 255) + (y - 255) * (y - 255) + z * z) \<le> 254"
    by simp
  from l s show ?thesis by (simp; linarith)
qed

lemma darkest_score_lower:
  "315 < sqrt ((148 - 255) * (148 - 255) + (163 - 255) * (163 - 255) + 184 * 184) * 0.8
            + \<bar>0.2126 * lin 148 + 0.7152 * lin 163 + 0.0722 * lin 184 - 0.9278\<bar> * 260"
proof -
  have u: "lin 148 \<le> 0.3628" "lin 163 \<le> 0.4331" "lin 184 \<le> 0.5419"
  proof -
    have "lin 148 \<le> ((148 / 255 + 0.055) / 1.055) ^ 2" by (rule lin_le_square) simp_all
    also have "\<dots> \<le> 0.3628" by (simp add: power2_eq_square)
    finally show "lin 148 \<le> 0.3628" .
    have "lin 163 \<le> ((163 / 255 + 0.055) / 1.055) ^ 2" by (rule lin_le_square) simp_all
    also have "\<dots> \<le> 0.4331" by (simp add: power2_eq_square)
    finally show "lin 163 \<le> 0.4331" .
    have "lin 184 \<le> ((184 / 255 + 0.055) / 1.055) ^ 2" by (rule lin_le_square) simp_all
    also have "\<dots> \<le> 0.5419" by (simp add: power2_eq_square)
    finally show "lin 184 \<le> 0.5419" .
  qed
  have "0.2126 * lin 148 + 0.7152 * lin 163 + 0.0722 * lin 184 - 0.9278 \<le> - 0.5017"
    using u by (simp; linarith)
  then have l: "0.5017 \<le> \<bar>0.2126 * lin 148 + 0.7152 * lin 163 + 0.0722 * lin 184 - 0.9278\<bar>"
    by (simp; linarith)
  have "sqrt (231 ^ 2) \<le> sqrt ((148 - 255) * (148 - 255) + (163 - 255) * (163 - 255) + 184 * 184)"
    by (intro real_sqrt_le_mono) simp
  then have s: "231 \<le> sqrt ((148 - 255) * (148 - 255) + (163 - 255) * (163 - 255) + 184 * 184)"
    by simp
  from l s show ?thesis by (simp; linarith)
qed

lemma scores_yellow:
  "js_gt (score [RGB (Fin 255) (Fin 255) (Fin 0)] (RGB (Fin 148) (Fin 163) (Fin 184)))
         (score [RGB (Fin 255) (Fin 255) (Fin 0)] (RGB (Fin 248) (Fin 250) (Fin 252)))"
  "js_gt (score [RGB (Fin 255) (Fin 255) (Fin 0)] (RGB (Fin 148) (Fin 163) (Fin 184)))
         (score [RGB (Fin 255) (Fin 255) (Fin 0)] (RGB (Fin 243) (Fin 244) (Fin 246)))"
  "js_gt (score [RGB (Fin 255) (Fin 255) (Fin 0)] (RGB (Fin 148) (Fin 163) (Fin 184)))
         (score [RGB (Fin 255) (Fin 255) (Fin 0)] (RGB (Fin 229) (Fin 231) (Fin 235)))"
  "js_gt (score [RGB (Fin 255) (Fin 255) (Fin 0)] (RGB (Fin 148) (Fin 163) (Fin 184)))
         (score [RGB (Fin 255) (Fin 255) (Fin 0)] (RGB (Fin 209) (Fin 213) (Fin 219)))"
  "js_gt (score [RGB (Fin 255) (Fin 255) (Fin 0)] (RGB (Fin 148) (Fin 163) (Fin 184)))
         (score [RGB (Fin 255) (Fin 255) (Fin 0)] (RGB (Fin 203) (Fin 213) (Fin 245)))"
  using darkest_score_lower
    lighter_score_upper [of 248 250 252] lighter_score_upper [of 243 244 246]
    lighter_score_upper [of 229 231 235] lighter_score_upper [of 209 213 219]
    lighter_score_upper [of 203 213 245]
  by (simp_all add: score_yellow)

lemma choose_yellow: "chooseNeutralColor [RGB (Fin 255) (Fin 255) (Fin 0)] = ''#94a3b8''"
proof -
  let ?y = "[RGB (Fin 255) (Fin 255) (Fin 0)]"
  obtain best where b: "best \<in> set palette" "chooseNeutralColor ?y = fst best"
    "\<forall>c\<in>set palette. js_le (score ?y (snd c)) (score ?y (snd best))"
    using chooseNeutralColor_best [of ?y] by (auto simp: finite_rgb_def)
  have "(''#94a3b8'', RGB (Fin 148) (Fin 163) (Fin 184)) \<in> set palette"
    by (simp add: palette_eq)
  with b(3) have le: "js_le (score ?y (RGB (Fin 148) (Fin 163) (Fin 184))) (score ?y (snd best))"
    by fastforce
  have gt: "js_gt a b \<Longrightarrow> \<not> js_le a b" for a b
    by (cases a; cases b) auto
  from b(1) le scores_yellow [THEN gt] have "best = (''#94a3b8'', RGB (Fin 148) (Fin 163) (Fin 184))"
    by (auto simp: palette_eq)
  with b(2) show ?thesis by simp
qed

text \<open>
  Claim C7 as stated fails: on the palette \<open>#ffff00\<close> the selector returns \<open>#94a3b8\<close>,
  although the ramp entry \<open>#cbd5f5\<close> is strictly farther from the palette.
\<close>

theorem returned_candidate_dominated_on_distance:
  "chooseNeutralColor [RGB (Fin 255) (Fin 255) (Fin 0)] = ''#94a3b8''
   \<and> hexToRgb ''#94a3b8'' = Some (RGB (Fin 148) (Fin 163) (Fin 184))
   \<and> hexToRgb ''#cbd5f5'' = Some (RGB (Fin 203) (Fin 213) (Fin 245))
   \<and> js_gt (minDistance (RGB (Fin 203) (Fin 213) (Fin 245)) [RGB (Fin 255) (Fin 255) (Fin 0)])
            (minDistance (RGB (Fin 148) (Fin 163) (Fin 184)) [RGB (Fin 255) (Fin 255) (Fin 0)])"
  by (simp add: choose_yellow minDistance_yellow hexToRgb_eval)

text \<open>
  Claim C8. With the transparent background switched on, the reported background is the
  string \<open>transparent\<close> for every palette, so two runs that differ only in the palette
  report the same background; the same holds for the background of the first tool.
\<close>

theorem transparent_background_ignores_palette:
  "backgroundLabel True colors = ''transparent''
   \<and> previewBackground True colors = ''transparent''
   \<and> backgroundLabel True colors = backgroundLabel True colors'
   \<and> backgroundColor True neutralColor = ''transparent''"
  by (simp add: backgroundLabel_def previewBackground_def backgroundColor_def)

section \<open>Properties of the metadata and of the ingestion\<close>

lemmas number_eval =
  parseFloat_def numberValue_def trimStart_def startsWith_def isWhiteSpace_def isDigit_def
  digitsValue_def digitValue_def parseExponent_def Let_def

lemmas length_eval =
  parseLength_def lengthMatchAt_def numberPrefix_def isDigit_def

lemmas meta_eval =
  parseSvgMeta_def querySelector_def toLowerCase_def toLowerCaseChar_def getAttribute_def
  falsy_def viewBoxSize_def finiteAt_def split_ws_def

lemma parseFloat_Nil: "parseFloat [] = NaN"
  by (simp add: number_eval)

lemma viewBoxNumber_Some:
  assumes "getAttribute svgEl ''viewBox'' = Some vb"
  shows "viewBoxNumber svgEl 2 = (if vb = [] then None else fst (viewBoxSize vb))"
    and "viewBoxNumber svgEl 3 = (if vb = [] then None else snd (viewBoxSize vb))"
proof -
  have e: "finiteAt (map parseFloat (split_ws [])) i = None" if "0 < i" for i
    using that by (simp add: split_ws_def finiteAt_def)
  show "viewBoxNumber svgEl 2 = (if vb = [] then None else fst (viewBoxSize vb))"
    using assms e [of 2] by (simp add: viewBoxNumber_def viewBoxSize_def Let_def)
  show "viewBoxNumber svgEl 3 = (if vb = [] then None else snd (viewBoxSize vb))"
    using assms e [of 3] by (simp add: viewBoxNumber_def viewBoxSize_def Let_def)
qed

lemma parseSvgMeta_rule:
  assumes "\<not> unparseable (Some svgEl)" and "rootIsSvg (Some svgEl)"
  shows "meta_width (parseSvgMeta toStr (Some svgEl))
           = firstUsable (parseLength (getAttribute svgEl ''width'')) (viewBoxNumber svgEl 2) 320
       \<and> meta_height (parseSvgMeta toStr (Some svgEl))
           = firstUsable (parseLength (getAttribute svgEl ''height'')) (viewBoxNumber svgEl 3) 180"
proof -
  have root: "querySelector (Some svgEl) ''parsererror'' = None"
    "toLowerCase (tagName svgEl) = ''svg''"
    using assms by (simp_all add: unparseable_def rootIsSvg_def)
  show ?thesis
  proof (cases "getAttribute svgEl ''viewBox''")
    case None
    then show ?thesis
      by (cases "parseLength (getAttribute svgEl ''width'')";
          cases "parseLength (getAttribute svgEl ''height'')")
        (simp_all add: parseSvgMeta_def root firstUsable_def viewBoxNumber_def falsy_def)
  next
    case (Some vb)
    obtain a b where ab: "viewBoxSize vb = (a, b)" by (cases "viewBoxSize vb")
    note n = viewBoxNumber_Some [OF Some]
    show ?thesis
      by (cases "parseLength (getAttribute svgEl ''width'')";
          cases "parseLength (getAttribute svgEl ''height'')"; cases a; cases b)
        (simp_all add: parseSvgMeta_def root Some ab n firstUsable_def falsy_def)
  qed
qed

lemma parseSvgMeta_failed:
  assumes "unparseable doc \<or> \<not> rootIsSvg doc"
  shows "meta_width (parseSvgMeta toStr doc) = 320 \<and> meta_height (parseSvgMeta toStr doc) = 180"
  using assms
  by (auto simp: parseSvgMeta_def unparseable_def rootIsSvg_def failedMeta_def
      split: option.splits)

lemma four_finite_Some:
  "(case ns of [Fin x, Fin y, Fin w, Fin h] \<Rightarrow> Some (f x y w h) | _ \<Rightarrow> None) = Some v
     \<Longrightarrow> \<exists>x y w h. ns = [Fin x, Fin y, Fin w, Fin h] \<and> v = f x y w h"
  by (simp split: list.splits jsnum.splits)

lemma four_finite_None:
  "(case ns of [Fin x, Fin y, Fin w, Fin h] \<Rightarrow> Some (f x y w h) | _ \<Rightarrow> None) = None
     \<Longrightarrow> (case ns of [Fin x, Fin y, Fin w, Fin h] \<Rightarrow> g x y w h | _ \<Rightarrow> d) = d"
  by (simp split: list.splits jsnum.splits)

lemma four_finite_cases:
  "(\<And>x y w h. P (g x y w h)) \<Longrightarrow> P d
     \<Longrightarrow> P (case ns of [Fin x, Fin y, Fin w, Fin h] \<Rightarrow> g x y w h | _ \<Rightarrow> d)"
  by (simp split: list.splits jsnum.splits)

lemma readViewBox_numbers:
  "readViewBox (getAttribute svg ''viewBox'')
     = (case viewBoxNumbers2 svg of
          [Fin x, Fin y, Fin w, Fin h] \<Rightarrow>
            Some (ViewBox x y (if w = 0 then 1 else w) (if h = 0 then 1 else h))
        | _ \<Rightarrow> None)"
proof (cases "getAttribute svg ''viewBox''")
  case None
  then show ?thesis by (simp add: readViewBox_def viewBoxNumbers2_def)
next
  case (Some a)
  show ?thesis
  proof (cases "a = []")
    case True
    with Some show ?thesis by (simp add: readViewBox_def viewBoxNumbers2_def parseFloat_Nil)
  next
    case False
    with Some show ?thesis
      by (simp add: readViewBox_def viewBoxNumbers2_def Let_def del: splitRuns.simps)
  qed
qed

lemma readViewBox_nonzero:
  assumes "readViewBox a = Some v"
  shows "vb_width v \<noteq> 0 \<and> vb_height v \<noteq> 0"
proof (cases a)
  case None
  with assms show ?thesis by (simp add: readViewBox_def)
next
  case (Some s)
  with assms have "s \<noteq> []" by (auto simp: readViewBox_def)
  with assms Some have
    "(case map parseFloat (splitRuns (\<lambda>c. c = CHR '' '' \<or> c = CHR '','') s) of
        [Fin x, Fin y, Fin w, Fin h] \<Rightarrow>
          Some (ViewBox x y (if w = 0 then 1 else w) (if h = 0 then 1 else h))
      | _ \<Rightarrow> None) = Some v"
    by (simp add: readViewBox_def Let_def del: splitRuns.simps)
  from four_finite_Some [OF this] obtain x y w h where
    "v = ViewBox x y (if w = 0 then 1 else w) (if h = 0 then 1 else h)"
    by blast
  then show ?thesis by simp
qed

lemma firstUsable_attr: "firstUsable (Some (parseLength2 a 0)) None d
    = (if parseLength2 a d = 0 then d else parseLength2 a d)"
  by (auto simp: firstUsable_def parseLength2_def split: option.splits jsnum.splits)

lemma parseSvg_ok:
  assumes "trim raw \<noteq> []" and "\<not> unparseable doc" and "querySelector doc ''svg'' = Some svg"
  shows "parsed_viewBox (parseSvg toStr raw doc)
     = Some (case readViewBox (getAttribute svg ''viewBox'') of
               Some vb \<Rightarrow> vb
             | None \<Rightarrow>
                 ViewBox 0 0
                   (firstUsable (Some (parseLength2 (getAttribute svg ''width'') 0)) None 160)
                   (firstUsable (Some (parseLength2 (getAttribute svg ''height'') 0)) None 120))"
  using assms
  by (cases "readViewBox (getAttribute svg ''viewBox'')")
    (simp_all add: parseSvg_def unparseable_def Let_def firstUsable_attr split: option.splits)

lemma firstUsable_nonzero: "d \<noteq> 0 \<Longrightarrow> firstUsable a b d \<noteq> 0"
  by (auto simp: firstUsable_def split: option.splits)

lemma parseSvg_nonzero:
  assumes "parsed_viewBox (parseSvg toStr raw doc) = Some vb"
  shows "vb_width vb \<noteq> 0 \<and> vb_height vb \<noteq> 0"
proof -
  from assms have t: "trim raw \<noteq> []" by (auto simp: parseSvg_def)
  from assms t have u: "\<not> unparseable doc"
    by (auto simp: parseSvg_def unparseable_def split: option.splits)
  from assms t u obtain svg where s: "querySelector doc ''svg'' = Some svg"
    by (cases "querySelector doc ''svg''")
      (auto simp: parseSvg_def unparseable_def split: option.splits)
  from parseSvg_ok [OF t u s, of toStr] assms show ?thesis
    by (cases "readViewBox (getAttribute svg ''viewBox'')")
      (auto dest: readViewBox_nonzero simp: firstUsable_nonzero)
qed

lemma parseSvg_rule:
  assumes "trim raw \<noteq> []" and "\<not> unparseable doc" and "querySelector doc ''svg'' = Some svg"
  shows "parsed_viewBox (parseSvg toStr raw doc)
     = Some (case viewBoxNumbers2 svg of
               [Fin x, Fin y, Fin w, Fin h] \<Rightarrow>
                 ViewBox x y (if w = 0 then 1 else w) (if h = 0 then 1 else h)
             | _ \<Rightarrow>
                 ViewBox 0 0
                   (firstUsable (Some (parseLength2 (getAttribute svg ''width'') 0)) None 160)
                   (firstUsable (Some (parseLength2 (getAttribute svg ''height'') 0)) None 120))"
proof (cases "readViewBox (getAttribute svg ''viewBox'')")
  case None
  then have "(case viewBoxNumbers2 svg of
          [Fin x, Fin y, Fin w, Fin h] \<Rightarrow>
            Some (ViewBox x y (if w = 0 then 1 else w) (if h = 0 then 1 else h))
        | _ \<Rightarrow> None) = None"
    by (simp add: readViewBox_numbers)
  from four_finite_None
     [where g = "\<lambda>x y w h. ViewBox x y (if w = 0 then 1 else w) (if h = 0 then 1 else h)"
        and d = "ViewBox 0 0
            (firstUsable (Some (parseLength2 (getAttribute svg ''width'') 0)) None 160)
            (firstUsable (Some (parseLength2 (getAttribute svg ''height'') 0)) None 120)",
      OF this]
  have "(case viewBoxNumbers2 svg of
           [Fin x, Fin y, Fin w, Fin h] \<Rightarrow>
             ViewBox x y (if w = 0 then 1 else w) (if h = 0 then 1 else h)
         | _ \<Rightarrow>
             ViewBox 0 0
               (firstUsable (Some (parseLength2 (getAttribute svg ''width'') 0)) None 160)
               (firstUsable (Some (parseLength2 (getAttribute svg ''height'') 0)) None 120))
      = ViewBox 0 0
          (firstUsable (Some (parseLength2 (getAttribute svg ''width'') 0)) None 160)
          (firstUsable (Some (parseLength2 (getAttribute svg ''height'') 0)) None 120)" .
  then show ?thesis
    unfolding parseSvg_ok [OF assms, of toStr] None by simp
next
  case (Some v)
  then have "(case viewBoxNumbers2 svg of
          [Fin x, Fin y, Fin w, Fin h] \<Rightarrow>
            Some (ViewBox x y (if w = 0 then 1 else w) (if h = 0 then 1 else h))
        | _ \<Rightarrow> None) = Some v"
    by (simp add: readViewBox_numbers)
  from four_finite_Some [OF this] obtain x y w h where
    "viewBoxNumbers2 svg = [Fin x, Fin y, Fin w, Fin h]"
    "v = ViewBox x y (if w = 0 then 1 else w) (if h = 0 then 1 else h)"
    by blast
  with parseSvg_ok [OF assms, of toStr] Some show ?thesis by simp
qed

lemma getSvgMetrics_attr:
  "(parseNumeric (getAttribute svgEl ''width'') = Fin w
      \<longrightarrow> m_width (getSvgMetrics baseVal svgEl) = Fin w)
   \<and> (parseNumeric (getAttribute svgEl ''height'') = Fin h
      \<longrightarrow> m_height (getSvgMetrics baseVal svgEl) = Fin h)"
proof -
  define m0 where "m0 = Metrics
      (if isFinite (parseNumeric (getAttribute svgEl ''width''))
       then parseNumeric (getAttribute svgEl ''width'') else NaN)
      (if isFinite (parseNumeric (getAttribute svgEl ''height''))
       then parseNumeric (getAttribute svgEl ''height'') else NaN) (Fin 0) (Fin 0)"
  define m1 where "m1 = (case getAttribute svgEl ''viewBox'' of
      None \<Rightarrow> m0
    | Some viewBoxAttr \<Rightarrow>
        if viewBoxAttr = [] then m0
        else (case map stringToNumber
                      (filter (\<lambda>p. p \<noteq> [])
                         (split_ws
                            (map (\<lambda>c. if c = CHR '','' then CHR '' '' else c) viewBoxAttr))) of
                [Fin minX, Fin minY, Fin vbWidth, Fin vbHeight] \<Rightarrow>
                  Metrics (if isFinite (m_width m0) then m_width m0 else Fin vbWidth)
                    (if isFinite (m_height m0) then m_height m0 else Fin vbHeight)
                    (Fin minX) (Fin minY)
              | _ \<Rightarrow> m0))"
  have g: "getSvgMetrics baseVal svgEl
      = (case baseVal svgEl of
           None \<Rightarrow> m1
         | Some vb \<Rightarrow>
             Metrics (if isFinite (m_width m1) then m_width m1 else Fin (box_width vb))
               (if isFinite (m_height m1) then m_height m1 else Fin (box_height vb))
               (Fin (box_x vb)) (Fin (box_y vb)))"
    unfolding getSvgMetrics_def Let_def m1_def m0_def by (rule refl)
  have w1: "m_width m1 = Fin w" if "parseNumeric (getAttribute svgEl ''width'') = Fin w"
  proof (cases "getAttribute svgEl ''viewBox''")
    case None
    with that show ?thesis by (simp add: m1_def m0_def)
  next
    case (Some a)
    have 0: "m_width m0 = Fin w" using that by (simp add: m0_def)
    have "m_width (case map stringToNumber
                      (filter (\<lambda>p. p \<noteq> [])
                         (split_ws (map (\<lambda>c. if c = CHR '','' then CHR '' '' else c) a))) of
                [Fin minX, Fin minY, Fin vbWidth, Fin vbHeight] \<Rightarrow>
                  Metrics (if isFinite (m_width m0) then m_width m0 else Fin vbWidth)
                    (if isFinite (m_height m0) then m_height m0 else Fin vbHeight)
                    (Fin minX) (Fin minY)
              | _ \<Rightarrow> m0) = Fin w"
      by (rule four_finite_cases) (simp_all add: 0)
    with 0 Some show ?thesis
      unfolding m1_def by (simp del: splitRuns.simps)
  qed
  have h1: "m_height m1 = Fin h" if "parseNumeric (getAttribute svgEl ''height'') = Fin h"
  proof (cases "getAttribute svgEl ''viewBox''")
    case None
    with that show ?thesis by (simp add: m1_def m0_def)
  next
    case (Some a)
    have 0: "m_height m0 = Fin h" using that by (simp add: m0_def)
    have "m_height (case map stringToNumber
                      (filter (\<lambda>p. p \<noteq> [])
                         (split_ws (map (\<lambda>c. if c = CHR '','' then CHR '' '' else c) a))) of
                [Fin minX, Fin minY, Fin vbWidth, Fin vbHeight] \<Rightarrow>
                  Metrics (if isFinite (m_width m0) then m_width m0 else Fin vbWidth)
                    (if isFinite (m_height m0) then m_height m0 else Fin vbHeight)
                    (Fin minX) (Fin minY)
              | _ \<Rightarrow> m0) = Fin h"
      by (rule four_finite_cases) (simp_all add: 0)
    with 0 Some show ?thesis
      unfolding m1_def by (simp del: splitRuns.simps)
  qed
  show ?thesis
    unfolding g using w1 h1 by (cases "baseVal svgEl") auto
qed

lemma getSvgMetrics_nothing:
  assumes "getAttribute svgEl ''viewBox'' = None" and "baseVal svgEl = None"
  shows "getAttribute svgEl ''width'' = None \<Longrightarrow> m_width (getSvgMetrics baseVal svgEl) = NaN"
    and "getAttribute svgEl ''height'' = None \<Longrightarrow> m_height (getSvgMetrics baseVal svgEl) = NaN"
  using assms by (simp_all add: getSvgMetrics_def parseNumeric_def Let_def)

lemma parseSvg_nothing:
  assumes "trim raw = [] \<or> unparseable doc \<or> querySelector doc ''svg'' = None"
  shows "parsed_viewBox (parseSvg toStr raw doc) = None"
  using assms by (auto simp: parseSvg_def unparseable_def split: option.splits)

lemma firstUsable_Some: "x \<noteq> 0 \<Longrightarrow> firstUsable (Some x) b d = x"
  by (simp add: firstUsable_def)

lemma parseSvgMeta_nonzero:
  "meta_width (parseSvgMeta toStr doc) \<noteq> 0 \<and> meta_height (parseSvgMeta toStr doc) \<noteq> 0"
proof (cases "unparseable doc \<or> \<not> rootIsSvg doc")
  case True
  from parseSvgMeta_failed [OF this, of toStr] show ?thesis by simp
next
  case False
  then obtain svgEl where d: "doc = Some svgEl"
    by (cases doc) (auto simp: rootIsSvg_def)
  from False d parseSvgMeta_rule [of svgEl toStr] show ?thesis
    by (simp add: firstUsable_nonzero)
qed

text \<open>
  Claim C1, as amended. \<open>parseSvgMeta\<close> resolves a width and a height different from zero:
  \<open>320\<close> and \<open>180\<close> for a document that does not parse or has no \<open>svg\<close> root, and otherwise
  the number of the attribute when it is a number other than zero, else the number of
  the \<open>viewBox\<close> when it is finite and not zero, else the default; a number other than
  zero is taken as it is written, so a negative one is kept. \<open>parseSvg\<close> resolves nothing
  for a blank text, a document that does not parse or one without an \<open>svg\<close> element, and
  otherwise a \<open>viewBox\<close> whose width and height are different from zero: the third and
  fourth of the four finite numbers of the attribute, a zero replaced by \<open>1\<close>, or else the
  numbers of the \<open>width\<close> and \<open>height\<close> attributes, with \<open>160\<close> and \<open>120\<close> for a missing one or a
  zero. \<open>getSvgMetrics\<close> has no default: a finite number in an attribute is resolved as it
  is, zero included, and without attribute, \<open>viewBox\<close> and rectangle of the host the
  width and the height are \<open>NaN\<close>.
\<close>

theorem resolved_size_per_resolver:
  "(meta_width (parseSvgMeta toStr doc) \<noteq> 0 \<and> meta_height (parseSvgMeta toStr doc) \<noteq> 0)
   \<and> (unparseable doc \<or> \<not> rootIsSvg doc \<longrightarrow>
        meta_width (parseSvgMeta toStr doc) = 320 \<and> meta_height (parseSvgMeta toStr doc) = 180)
   \<and> (\<not> unparseable (Some svgEl) \<and> rootIsSvg (Some svgEl) \<longrightarrow>
        meta_width (parseSvgMeta toStr (Some svgEl))
          = firstUsable (parseLength (getAttribute svgEl ''width'')) (viewBoxNumber svgEl 2) 320
        \<and> meta_height (parseSvgMeta toStr (Some svgEl))
          = firstUsable (parseLength (getAttribute svgEl ''height'')) (viewBoxNumber svgEl 3) 180)
   \<and> (x \<noteq> 0 \<longrightarrow> firstUsable (Some x) b d = x)
   \<and> (trim raw = [] \<or> unparseable doc \<or> querySelector doc ''svg'' = None \<longrightarrow>
        parsed_viewBox (parseSvg toStr raw doc) = None)
   \<and> (\<forall>vb. parsed_viewBox (parseSvg toStr raw doc) = Some vb \<longrightarrow>
        vb_width vb \<noteq> 0 \<and> vb_height vb \<noteq> 0)
   \<and> (trim raw \<noteq> [] \<and> \<not> unparseable doc \<and> querySelector doc ''svg'' = Some svg \<longrightarrow>
        parsed_viewBox (parseSvg toStr raw doc)
          = Some (case viewBoxNumbers2 svg of
                    [Fin vx, Fin vy, Fin vw, Fin vh] \<Rightarrow>
                      ViewBox vx vy (if vw = 0 then 1 else vw) (if vh = 0 then 1 else vh)
                  | _ \<Rightarrow>
                      ViewBox 0 0
                        (firstUsable (Some (parseLength2 (getAttribute svg ''width'') 0)) None 160)
                        (firstUsable (Some (parseLength2 (getAttribute svg ''height'') 0)) None
                           120)))
   \<and> (parseNumeric (getAttribute svgEl ''width'') = Fin w \<longrightarrow>
        m_width (getSvgMetrics baseVal svgEl) = Fin w)
   \<and> (parseNumeric (getAttribute svgEl ''height'') = Fin h \<longrightarrow>
        m_height (getSvgMetrics baseVal svgEl) = Fin h)
   \<and> (getAttribute svgEl ''viewBox'' = None \<and> baseVal svgEl = None \<longrightarrow>
        (getAttribute svgEl ''width'' = None \<longrightarrow> m_width (getSvgMetrics baseVal svgEl) = NaN)
        \<and> (getAttribute svgEl ''height'' = None \<longrightarrow>
             m_height (getSvgMetrics baseVal svgEl) = NaN))"
  using parseSvgMeta_nonzero [of toStr doc] parseSvgMeta_failed [of doc toStr]
    parseSvgMeta_rule [of svgEl toStr] firstUsable_Some [of x b d]
    parseSvg_nothing [of raw doc toStr] parseSvg_nonzero [of toStr raw doc]
    parseSvg_rule [of raw doc svg toStr] getSvgMetrics_attr [of svgEl w baseVal h]
    getSvgMetrics_nothing [of svgEl baseVal]
  by blast

lemma split_0079: "split_ws ''0 0 7 9'' = [''0'', ''0'', ''7'', ''9'']"
  by (simp add: split_ws_def isWhiteSpace_def)

lemma splitRuns_0079:
  "splitRuns (\<lambda>c. c = CHR '' '' \<or> c = CHR '','') ''0 0 7 9'' = [''0'', ''0'', ''7'', ''9'']"
  by simp

lemma pf_digits:
  "parseFloat ''0'' = Fin 0" "parseFloat ''7'' = Fin 7" "parseFloat ''9'' = Fin 9"
  "parseFloat ''-5'' = Fin (- 5)"
  by (simp_all add: number_eval)

lemma witness_facts:
  "\<not> unparseable
       (Some (Element ''svg'' [(''width'', ''-5''), (''height'', ''0''), (''viewBox'', ''0 0 7 9'')]
                [] []))"
  "rootIsSvg
     (Some (Element ''svg'' [(''width'', ''-5''), (''height'', ''0''), (''viewBox'', ''0 0 7 9'')]
              [] []))"
  "querySelector
     (Some (Element ''svg'' [(''width'', ''-5''), (''height'', ''0''), (''viewBox'', ''0 0 7 9'')]
              [] [])) ''svg''
   = Some (Element ''svg'' [(''width'', ''-5''), (''height'', ''0''), (''viewBox'', ''0 0 7 9'')]
             [] [])"
  "parseLength (Some ''-5'') = Some (- 5)"
  "parseLength (Some ''0'') = Some 0"
  "parseNumeric (Some ''-5'') = Fin (- 5)"
  "parseNumeric (Some ''0'') = Fin 0"
  by (simp_all add: unparseable_def rootIsSvg_def querySelector_def toLowerCase_def
      toLowerCaseChar_def length_eval parseNumeric_def trim_def isWhiteSpace_def pf_digits)

text \<open>
  The theorem of C1 at the document of
  \<open><svg width='-5' height='0' viewBox='0 0 7 9'/>\<close> and, for \<open>getSvgMetrics\<close>, also at \<open><svg/>\<close>.
\<close>

theorem resolved_size_per_resolver_witness:
  "\<forall>toStr.
     meta_width (parseSvgMeta toStr
       (Some (Element ''svg'' [(''width'', ''-5''), (''height'', ''0''), (''viewBox'', ''0 0 7 9'')]
                [] []))) = - 5
     \<and> meta_height (parseSvgMeta toStr
       (Some (Element ''svg'' [(''width'', ''-5''), (''height'', ''0''), (''viewBox'', ''0 0 7 9'')]
                [] []))) = 9
     \<and> parsed_viewBox (parseSvg toStr ''<svg width='-5' height='0' viewBox='0 0 7 9'/>''
       (Some (Element ''svg'' [(''width'', ''-5''), (''height'', ''0''), (''viewBox'', ''0 0 7 9'')]
                [] []))) = Some (ViewBox 0 0 7 9)
     \<and> m_width (getSvgMetrics (\<lambda>e. None)
       (Element ''svg'' [(''width'', ''-5''), (''height'', ''0''), (''viewBox'', ''0 0 7 9'')]
          [] [])) = Fin (- 5)
     \<and> m_height (getSvgMetrics (\<lambda>e. None)
       (Element ''svg'' [(''width'', ''-5''), (''height'', ''0''), (''viewBox'', ''0 0 7 9'')]
          [] [])) = Fin 0
     \<and> m_width (getSvgMetrics (\<lambda>e. None) (Element ''svg'' [] [] [])) = NaN
     \<and> m_height (getSvgMetrics (\<lambda>e. None) (Element ''svg'' [] [] [])) = NaN"
proof
  fix toStr :: "real \<Rightarrow> string"
  let ?e = "Element ''svg'' [(''width'', ''-5''), (''height'', ''0''), (''viewBox'', ''0 0 7 9'')]
              [] []"
  let ?raw = "''<svg width='-5' height='0' viewBox='0 0 7 9'/>''"
  have a: "getAttribute ?e ''width'' = Some ''-5''" "getAttribute ?e ''height'' = Some ''0''"
    "getAttribute ?e ''viewBox'' = Some ''0 0 7 9''"
    by (simp_all add: getAttribute_def)
  have n: "viewBoxNumber ?e 2 = Some 7" "viewBoxNumber ?e 3 = Some 9"
    by (simp_all add: viewBoxNumber_def a split_0079 finiteAt_def pf_digits)
  have n2: "viewBoxNumbers2 ?e = [Fin 0, Fin 0, Fin 7, Fin 9]"
    by (simp add: viewBoxNumbers2_def a splitRuns_0079 pf_digits del: splitRuns.simps)
  have r: "trim ?raw \<noteq> []"
    by (simp add: trim_def isWhiteSpace_def)
  have e: "getAttribute (Element ''svg'' [] [] []) ''width'' = None"
    "getAttribute (Element ''svg'' [] [] []) ''height'' = None"
    "getAttribute (Element ''svg'' [] [] []) ''viewBox'' = None"
    by (simp_all add: getAttribute_def)
  note t1 = resolved_size_per_resolver
    [where toStr = toStr and doc = "Some ?e" and svgEl = ?e and x = "- 5" and b = None
       and d = 320 and raw = ?raw and svg = ?e and baseVal = "\<lambda>e. None" and w = "- 5"
       and h = 0]
  note t2 = resolved_size_per_resolver
    [where toStr = toStr and doc = "Some ?e" and svgEl = "Element ''svg'' [] [] []"
       and x = "- 5" and b = None and d = 320 and raw = ?raw and svg = ?e
       and baseVal = "\<lambda>e. None" and w = "- 5" and h = 0]
  from t1 have 1: "meta_width (parseSvgMeta toStr (Some ?e)) = - 5"
    "meta_height (parseSvgMeta toStr (Some ?e)) = 9"
    by (simp_all add: witness_facts a n firstUsable_def)
  from t1 r have 2: "parsed_viewBox (parseSvg toStr ?raw (Some ?e)) = Some (ViewBox 0 0 7 9)"
    by (simp add: witness_facts n2)
  from t1 have 3: "m_width (getSvgMetrics (\<lambda>e. None) ?e) = Fin (- 5)"
    "m_height (getSvgMetrics (\<lambda>e. None) ?e) = Fin 0"
    by (simp_all add: witness_facts a)
  from t2 have 4: "m_width (getSvgMetrics (\<lambda>e. None) (Element ''svg'' [] [] [])) = NaN"
    "m_height (getSvgMetrics (\<lambda>e. None) (Element ''svg'' [] [] [])) = NaN"
    by (simp_all add: e)
  from 1 2 3 4 show "meta_width (parseSvgMeta toStr (Some ?e)) = - 5
     \<and> meta_height (parseSvgMeta toStr (Some ?e)) = 9
     \<and> parsed_viewBox (parseSvg toStr ?raw (Some ?e)) = Some (ViewBox 0 0 7 9)
     \<and> m_width (getSvgMetrics (\<lambda>e. None) ?e) = Fin (- 5)
     \<and> m_height (getSvgMetrics (\<lambda>e. None) ?e) = Fin 0
     \<and> m_width (getSvgMetrics (\<lambda>e. None) (Element ''svg'' [] [] [])) = NaN
     \<and> m_height (getSvgMetrics (\<lambda>e. None) (Element ''svg'' [] [] [])) = NaN"
    by simp
qed

text \<open>
  Claim C1 as stated fails: a negative \<open>width\<close> and \<open>height\<close> are resolved as they are
  written, so the resolved size need not be positive.
\<close>

theorem negative_size_is_kept:
  "\<forall>toStr. meta_width (parseSvgMeta toStr
       (Some (Element ''svg'' [(''width'', ''-5''), (''height'', ''-3'')] [] []))) = - 5
     \<and> meta_height (parseSvgMeta toStr
       (Some (Element ''svg'' [(''width'', ''-5''), (''height'', ''-3'')] [] []))) = - 3
     \<and> meta_error (parseSvgMeta toStr
       (Some (Element ''svg'' [(''width'', ''-5''), (''height'', ''-3'')] [] []))) = None"
  by (simp add: meta_eval length_eval number_eval)

text \<open>
  \<open>getSvgMetrics\<close> at the document of \<open><svg/>\<close> on a host that gives the empty rectangle,
  and at a document whose size comes from the \<open>viewBox\<close>.
\<close>

lemma getSvgMetrics_empty_rect:
  "getSvgMetrics (\<lambda>e. Some (BBox 0 0 0 0)) (Element ''svg'' [] [] [])
     = Metrics (Fin 0) (Fin 0) (Fin 0) (Fin 0)"
  by (simp add: getSvgMetrics_def getAttribute_def parseNumeric_def)

lemma stringToNumber_digits:
  "stringToNumber ''0'' = Fin 0" "stringToNumber ''10'' = Fin 10" "stringToNumber ''20'' = Fin 20"
  "stringToNumber ''12px'' = NaN" "stringToNumber ''0x10'' = Fin 16"
  by (simp_all add: stringToNumber_def trim_def toLowerCase_def toLowerCaseChar_def
      decimalLiteral_def exponentPart_def radixValue_def hexDigitValue_def number_eval)

lemma getSvgMetrics_viewBox:
  "getSvgMetrics (\<lambda>e. None) (Element ''svg'' [(''viewBox'', ''0,0 10 20'')] [] [])
     = Metrics (Fin 10) (Fin 20) (Fin 0) (Fin 0)"
  by (simp add: getSvgMetrics_def getAttribute_def parseNumeric_def split_ws_def
      isWhiteSpace_def stringToNumber_digits)

lemma failedMeta_error: "meta_error (failedMeta msg) = Some msg"
  by (simp add: failedMeta_def)

lemma msg_nonempty: "msg_parse_failed \<noteq> []" "msg_no_root \<noteq> []"
  by (simp_all add: msg_parse_failed_def msg_no_root_def)

lemma parseSvgMeta_error:
  assumes "unparseable doc \<or> \<not> rootIsSvg doc"
  shows "\<exists>msg. msg \<noteq> [] \<and> meta_error (parseSvgMeta toStr doc) = Some msg"
proof (cases "querySelector doc ''parsererror''")
  case (Some pe)
  then show ?thesis
    using msg_nonempty by (auto simp: parseSvgMeta_def failedMeta_error)
next
  case None
  with assms have "\<not> rootIsSvg doc" by (simp add: unparseable_def)
  with None show ?thesis
    using msg_nonempty
    by (auto simp: parseSvgMeta_def failedMeta_error rootIsSvg_def split: option.splits)
qed

text \<open>
  Claim C3. When the document holds a \<open>parsererror\<close> element, or its root is not an \<open>svg\<close>
  element, \<open>parseSvgMeta\<close> gives a non-empty error message and \<open>App\<close> renders this message
  alone: neither the overlay nor the processed markup is part of the output.
\<close>

theorem malformed_markup_shows_error_only:
  assumes "unparseable doc \<or> \<not> rootIsSvg doc"
  shows "\<exists>msg. msg \<noteq> [] \<and> meta_error (parseSvgMeta toStr doc) = Some msg
           \<and> App toStr doc neutralColor st = ErrorAlert msg
           \<and> overlayOf (App toStr doc neutralColor st) = None
           \<and> contentOf (App toStr doc neutralColor st) = None"
proof -
  obtain msg where m: "msg \<noteq> []" "meta_error (parseSvgMeta toStr doc) = Some msg"
    using parseSvgMeta_error [OF assms] by blast
  then have "App toStr doc neutralColor st = ErrorAlert msg"
    by (simp add: App_def Let_def)
  with m show ?thesis by simp
qed

text \<open>The theorem of C3 at the document a host returns for an unterminated tag.\<close>

theorem malformed_markup_shows_error_only_witness:
  "\<forall>toStr. unparseable (Some (Element ''svg'' [] []
       [Element ''parsererror'' [] ''error on line 1: tag mismatch'' [], Element ''rect'' [] [] []]))
   \<and> App toStr (Some (Element ''svg'' [] []
       [Element ''parsererror'' [] ''error on line 1: tag mismatch'' [], Element ''rect'' [] [] []]))
       ''#f5f5f5''
       \<lparr>svgText = ''<svg><rect></svg>'', maintainAspect = True, backgroundTransparent = False,
        showDimensionLines = True, widthInput = ''320'', heightInput = ''180'',
        aspectRatioRef = Fin (16 / 9)\<rparr>
     = ErrorAlert ''error on line 1: tag mismatch''"
proof
  fix toStr
  let ?doc = "Some (Element ''svg'' [] []
       [Element ''parsererror'' [] ''error on line 1: tag mismatch'' [], Element ''rect'' [] [] []])"
  let ?st = "\<lparr>svgText = ''<svg><rect></svg>'', maintainAspect = True, backgroundTransparent = False,
        showDimensionLines = True, widthInput = ''320'', heightInput = ''180'',
        aspectRatioRef = Fin (16 / 9)\<rparr>"
  have u: "unparseable ?doc" by (simp add: unparseable_def querySelector_def)
  have e: "meta_error (parseSvgMeta toStr ?doc) = Some ''error on line 1: tag mismatch''"
    by (simp add: parseSvgMeta_def querySelector_def failedMeta_def)
  from malformed_markup_shows_error_only [of ?doc toStr "''#f5f5f5''" ?st] u e
  show "unparseable ?doc \<and> App toStr ?doc ''#f5f5f5'' ?st = ErrorAlert ''error on line 1: tag mismatch''"
    by auto
qed

lemma parseSvgMeta_default:
  assumes "\<not> unparseable doc" "doc = Some svgEl" "toLowerCase (tagName svgEl) = ''svg''"
    "lacksSize svgEl"
  shows "parseSvgMeta toStr doc = SvgMeta 320 180 (''0 0 '' @ toStr 320 @ '' '' @ toStr 180) None"
  using assms
  by (auto simp: parseSvgMeta_def unparseable_def lacksSize_def falsy_def Let_def
      split: option.splits)

lemma parseLength2_fallback:
  "parseLength2 a 0 = 0 \<Longrightarrow> parseLength2 a d = d \<or> parseLength2 a d = 0"
  by (auto simp: parseLength2_def split: option.splits jsnum.splits if_splits)

lemma getAttribute_setAttribute:
  "getAttribute (setAttribute n v e) n' = (if n' = n then Some v else getAttribute e n')"
proof -
  have "map_of (updateAttribute n v as) n' = (if n' = n then Some v else map_of as n')" for as
    by (induction as) auto
  then show ?thesis by (simp add: getAttribute_def setAttribute_def)
qed

lemma parseSvg_default:
  assumes "trim raw \<noteq> []" "\<not> unparseable doc" "querySelector doc ''svg'' = Some svg"
    "lacksSize2 svg"
  shows "\<exists>svg'. parseSvg toStr raw doc = Parsed (Some svg') (Some (ViewBox 0 0 160 120)) None
           \<and> getAttribute svg' ''viewBox''
               = Some (toStr 0 @ '' '' @ toStr 0 @ '' '' @ toStr 160 @ '' '' @ toStr 120)"
proof -
  have w: "(if parseLength2 (getAttribute svg ''width'') 160 = 0 then 160
            else parseLength2 (getAttribute svg ''width'') 160) = 160"
    using assms(4) parseLength2_fallback [of "getAttribute svg ''width''" 160]
    by (auto simp: lacksSize2_def)
  have h: "(if parseLength2 (getAttribute svg ''height'') 120 = 0 then 120
            else parseLength2 (getAttribute svg ''height'') 120) = 120"
    using assms(4) parseLength2_fallback [of "getAttribute svg ''height''" 120]
    by (auto simp: lacksSize2_def)
  have v: "readViewBox (getAttribute svg ''viewBox'') = None"
    using assms(4) by (simp add: lacksSize2_def)
  have q: "querySelector doc ''parsererror'' = None"
    using assms(2) by (simp add: unparseable_def)
  show ?thesis
    using assms(1)
    by (simp add: parseSvg_def q assms(3) v w h Let_def getAttribute_setAttribute
        split: option.splits)
qed

text \<open>
  Claim C4, as amended. For a document without a \<open>viewBox\<close> and without a usable width and
  height, \<open>parseSvgMeta\<close> returns the size 320 by 180 and the text of the equivalent
  \<open>viewBox\<close> in its result, and \<open>parseSvg\<close>, the resolver that writes to the tree, returns
  the size 160 by 120 and sets the equivalent \<open>viewBox\<close> attribute on the element.
\<close>

theorem default_size_and_viewBox:
  "(\<not> unparseable doc \<and> doc = Some svgEl \<and> toLowerCase (tagName svgEl) = ''svg''
      \<and> lacksSize svgEl
    \<longrightarrow> parseSvgMeta toStr doc
          = SvgMeta 320 180 (''0 0 '' @ toStr 320 @ '' '' @ toStr 180) None)
   \<and> (trim raw \<noteq> [] \<and> \<not> unparseable doc \<and> querySelector doc ''svg'' = Some svg
        \<and> lacksSize2 svg
      \<longrightarrow> (\<exists>svg'. parseSvg toStr raw doc
                     = Parsed (Some svg') (Some (ViewBox 0 0 160 120)) None
                  \<and> getAttribute svg' ''viewBox''
                      = Some (toStr 0 @ '' '' @ toStr 0 @ '' '' @ toStr 160 @ '' '' @ toStr 120)))"
  using parseSvgMeta_default parseSvg_default by blast

lemma empty_svg_facts:
  "\<not> unparseable (Some (Element ''svg'' [] [] []))"
  "toLowerCase (tagName (Element ''svg'' [] [] [])) = ''svg''"
  "lacksSize (Element ''svg'' [] [] [])"
  "lacksSize2 (Element ''svg'' [] [] [])"
  "querySelector (Some (Element ''svg'' [] [] [])) ''svg'' = Some (Element ''svg'' [] [] [])"
  "trim ''<svg></svg>'' \<noteq> []"
  by (simp_all add: unparseable_def querySelector_def toLowerCase_def toLowerCaseChar_def
      lacksSize_def lacksSize2_def getAttribute_def parseLength_def parseLength2_def falsy_def
      readViewBox_def trim_def isWhiteSpace_def)

text \<open>The theorem of C4 at the document of \<open><svg></svg>\<close>.\<close>

theorem default_size_and_viewBox_witness:
  "\<forall>toStr.
     parseSvgMeta toStr (Some (Element ''svg'' [] [] []))
       = SvgMeta 320 180 (''0 0 '' @ toStr 320 @ '' '' @ toStr 180) None
     \<and> (\<exists>svg'. parseSvg toStr ''<svg></svg>'' (Some (Element ''svg'' [] [] []))
                 = Parsed (Some svg') (Some (ViewBox 0 0 160 120)) None
              \<and> getAttribute svg' ''viewBox''
                  = Some (toStr 0 @ '' '' @ toStr 0 @ '' '' @ toStr 160 @ '' '' @ toStr 120))"
  using default_size_and_viewBox
    [of "Some (Element ''svg'' [] [] [])" "Element ''svg'' [] [] []" _ "''<svg></svg>''"
        "Element ''svg'' [] [] []"]
    empty_svg_facts
  by simp

lemma sanitize_plain: "sanitizeSvg ''<svg></svg>'' = ''<svg></svg>''"
  by (simp add: sanitizeSvg_def scriptBlockAt_def startsWith_def toLowerCase_def toLowerCaseChar_def)

text \<open>
  Claim C4 as stated fails on the markup \<open><svg></svg>\<close>: the first tool resolves the width
  320 and hands the markup on as it is, without a \<open>viewBox\<close>; the second tool, which writes
  the \<open>viewBox\<close>, resolves 160 by 120.
\<close>

theorem default_size_without_written_viewBox:
  "\<forall>toStr.
     meta_width (parseSvgMeta toStr (Some (Element ''svg'' [] [] []))) = 320
     \<and> contentOf (App toStr (Some (Element ''svg'' [] [] [])) ''#f5f5f5''
          \<lparr>svgText = ''<svg></svg>'', maintainAspect = True, backgroundTransparent = False,
           showDimensionLines = True, widthInput = ''320'', heightInput = ''180'',
           aspectRatioRef = Fin (16 / 9)\<rparr>) = Some ''<svg></svg>''
     \<and> parsed_viewBox (parseSvg toStr ''<svg></svg>'' (Some (Element ''svg'' [] [] [])))
         = Some (ViewBox 0 0 160 120)"
proof
  fix toStr
  have m: "parseSvgMeta toStr (Some (Element ''svg'' [] [] []))
       = SvgMeta 320 180 (''0 0 '' @ toStr 320 @ '' '' @ toStr 180) None"
    using parseSvgMeta_default empty_svg_facts by blast
  obtain svg' where p: "parseSvg toStr ''<svg></svg>'' (Some (Element ''svg'' [] [] []))
                 = Parsed (Some svg') (Some (ViewBox 0 0 160 120)) None"
    using parseSvg_default [OF empty_svg_facts(6,1,5,4)] by blast
  show "meta_width (parseSvgMeta toStr (Some (Element ''svg'' [] [] []))) = 320
     \<and> contentOf (App toStr (Some (Element ''svg'' [] [] [])) ''#f5f5f5''
          \<lparr>svgText = ''<svg></svg>'', maintainAspect = True, backgroundTransparent = False,
           showDimensionLines = True, widthInput = ''320'', heightInput = ''180'',
           aspectRatioRef = Fin (16 / 9)\<rparr>) = Some ''<svg></svg>''
     \<and> parsed_viewBox (parseSvg toStr ''<svg></svg>'' (Some (Element ''svg'' [] [] [])))
         = Some (ViewBox 0 0 160 120)"
    by (simp add: m p App_def sanitize_plain)
qed








lemma descendants_attrs [simp]:
  "descendants (setAttribute n v e) = descendants e"
  by (cases e) (simp add: setAttribute_def)

lemma textContent_attrs [simp]:
  "textContent (setAttribute n v e) = textContent e"
  by (cases e) (simp add: setAttribute_def)

lemma tagName_attrs [simp]: "tagName (setAttribute n v e) = tagName e"
  by (simp add: setAttribute_def)





section \<open>Properties of the aspect lock, of the pruner and of the sanitizers\<close>

lemma degenerateEdit_positive:
  "\<not> degenerateEdit numeric ratio derived \<Longrightarrow> \<exists>d. derived = Fin d \<and> 0 < d"
  by (cases derived) (auto simp: degenerateEdit_def)

lemma usedRatio_truthy: "(if truthy r then r else Fin 1) = usedRatio r"
  by (cases r) (auto simp: usedRatio_def)

text \<open>
  Claim C10, as amended. With the aspect lock on, the first annotation tool stores the
  typed text and overwrites the linked field exactly when the edit is not degenerate,
  with the formatted derived value; when the typed value is not a number, the retained
  ratio is not finite or is zero, or the derived value is not finite or not positive,
  the linked field keeps its text, and a derived value that is written is finite and
  positive. The dimension guide overwrites the linked field whenever the typed value is
  a number and the derived value is finite, whatever its sign, and it computes with the
  ratio \<open>1\<close> in place of a retained ratio that is zero or \<open>NaN\<close>.
\<close>

theorem aspect_lock_writes_per_tool:
  assumes "maintainAspect st" and "lockAspect gst"
  shows "handleWidthChange toFixed v st
           = (if degenerateEdit (parseFloat v) (aspectRatioRef st)
                   (toDouble (js_div (parseFloat v) (aspectRatioRef st)))
              then st\<lparr>widthInput := v\<rparr>
              else st\<lparr>widthInput := v,
                      heightInput := formatNumberForInput toFixed
                                       (toDouble (js_div (parseFloat v) (aspectRatioRef st)))\<rparr>)
       \<and> handleHeightChange toFixed v st
           = (if degenerateEdit (parseFloat v) (aspectRatioRef st)
                   (toDouble (js_mul (parseFloat v) (aspectRatioRef st)))
              then st\<lparr>heightInput := v\<rparr>
              else st\<lparr>heightInput := v,
                      widthInput := formatNumberForInput toFixed
                                      (toDouble (js_mul (parseFloat v) (aspectRatioRef st)))\<rparr>)
       \<and> (\<not> degenerateEdit numeric ratio derived \<longrightarrow> (\<exists>d. derived = Fin d \<and> 0 < d))
       \<and> handleWidthChange_guide toFixed v gst
           = (case parseNumeric_guide v of
                None \<Rightarrow> gst\<lparr>widthInput_guide := v\<rparr>
              | Some n \<Rightarrow>
                  (case toDouble (js_div (Fin n) (usedRatio (ratioRef gst))) of
                     Fin x \<Rightarrow>
                       gst\<lparr>widthInput_guide := v,
                            heightInput_guide := dropFinalDot (dropZeroFraction (toFixed x 3))\<rparr>
                   | _ \<Rightarrow> gst\<lparr>widthInput_guide := v\<rparr>))
       \<and> handleHeightChange_guide toFixed v gst
           = (case parseNumeric_guide v of
                None \<Rightarrow> gst\<lparr>heightInput_guide := v\<rparr>
              | Some n \<Rightarrow>
                  (case toDouble (js_mul (Fin n) (usedRatio (ratioRef gst))) of
                     Fin x \<Rightarrow>
                       gst\<lparr>heightInput_guide := v,
                            widthInput_guide := dropFinalDot (dropZeroFraction (toFixed x 3))\<rparr>
                   | _ \<Rightarrow> gst\<lparr>heightInput_guide := v\<rparr>))"
proof -
  have w: "handleWidthChange toFixed v st
           = (if degenerateEdit (parseFloat v) (aspectRatioRef st)
                   (toDouble (js_div (parseFloat v) (aspectRatioRef st)))
              then st\<lparr>widthInput := v\<rparr>
              else st\<lparr>widthInput := v,
                      heightInput := formatNumberForInput toFixed
                                       (toDouble (js_div (parseFloat v) (aspectRatioRef st)))\<rparr>)"
    using assms(1) by (auto simp: degenerateEdit_def handleWidthChange_def Let_def)
  have h: "handleHeightChange toFixed v st
           = (if degenerateEdit (parseFloat v) (aspectRatioRef st)
                   (toDouble (js_mul (parseFloat v) (aspectRatioRef st)))
              then st\<lparr>heightInput := v\<rparr>
              else st\<lparr>heightInput := v,
                      widthInput := formatNumberForInput toFixed
                                      (toDouble (js_mul (parseFloat v) (aspectRatioRef st)))\<rparr>)"
    using assms(1)
    by (cases "aspectRatioRef st") (auto simp: degenerateEdit_def handleHeightChange_def Let_def)
  have gw: "handleWidthChange_guide toFixed v gst
           = (case parseNumeric_guide v of
                None \<Rightarrow> gst\<lparr>widthInput_guide := v\<rparr>
              | Some n \<Rightarrow>
                  (case toDouble (js_div (Fin n) (usedRatio (ratioRef gst))) of
                     Fin x \<Rightarrow>
                       gst\<lparr>widthInput_guide := v,
                            heightInput_guide := dropFinalDot (dropZeroFraction (toFixed x 3))\<rparr>
                   | _ \<Rightarrow> gst\<lparr>widthInput_guide := v\<rparr>))"
    using assms(2)
    by (simp add: handleWidthChange_guide_def Let_def usedRatio_truthy [symmetric]
        split: option.splits jsnum.splits)
  have gh: "handleHeightChange_guide toFixed v gst
           = (case parseNumeric_guide v of
                None \<Rightarrow> gst\<lparr>heightInput_guide := v\<rparr>
              | Some n \<Rightarrow>
                  (case toDouble (js_mul (Fin n) (usedRatio (ratioRef gst))) of
                     Fin x \<Rightarrow>
                       gst\<lparr>heightInput_guide := v,
                            widthInput_guide := dropFinalDot (dropZeroFraction (toFixed x 3))\<rparr>
                   | _ \<Rightarrow> gst\<lparr>heightInput_guide := v\<rparr>))"
    using assms(2)
    by (simp add: handleHeightChange_guide_def Let_def usedRatio_truthy [symmetric]
        split: option.splits jsnum.splits)
  from w h gw gh degenerateEdit_positive show ?thesis by blast
qed

lemma pf200: "parseFloat ''200'' = Fin 200"
  by (simp add: number_eval)

lemma pfabc: "parseFloat ''abc'' = NaN"
  by (simp add: number_eval)

lemma pn200: "parseNumeric_guide ''200'' = Some 200"
  by (simp add: parseNumeric_guide_def trim_def isWhiteSpace_def pf200)

lemma pnm5: "parseNumeric_guide ''-5'' = Some (- 5)"
  by (simp add: parseNumeric_guide_def trim_def number_eval)

text \<open>
  The theorem of C10 at the ratio 2: in the first tool the width \<open>200\<close> sets the height to
  the formatted \<open>100\<close> and the width \<open>abc\<close> leaves the height alone; in the dimension guide
  the width \<open>200\<close> sets the height to the formatted \<open>100\<close>.
\<close>

theorem aspect_lock_writes_per_tool_witness:
  "\<forall>toFixed.
     handleWidthChange toFixed ''200''
       \<lparr>svgText = [], maintainAspect = True, backgroundTransparent = False,
        showDimensionLines = True, widthInput = ''100'', heightInput = ''50'',
        aspectRatioRef = Fin 2\<rparr>
     = \<lparr>svgText = [], maintainAspect = True, backgroundTransparent = False,
        showDimensionLines = True, widthInput = ''200'',
        heightInput = formatNumberForInput toFixed (Fin 100), aspectRatioRef = Fin 2\<rparr>
     \<and> handleWidthChange toFixed ''abc''
       \<lparr>svgText = [], maintainAspect = True, backgroundTransparent = False,
        showDimensionLines = True, widthInput = ''100'', heightInput = ''50'',
        aspectRatioRef = Fin 2\<rparr>
     = \<lparr>svgText = [], maintainAspect = True, backgroundTransparent = False,
        showDimensionLines = True, widthInput = ''abc'', heightInput = ''50'',
        aspectRatioRef = Fin 2\<rparr>
     \<and> handleWidthChange_guide toFixed ''200''
       \<lparr>widthInput_guide = ''100'', heightInput_guide = ''50'', lockAspect = True,
        ratioRef = Fin 2\<rparr>
     = \<lparr>widthInput_guide = ''200'',
        heightInput_guide = dropFinalDot (dropZeroFraction (toFixed 100 3)),
        lockAspect = True, ratioRef = Fin 2\<rparr>"
proof
  fix toFixed
  let ?st = "\<lparr>svgText = [], maintainAspect = True, backgroundTransparent = False,
        showDimensionLines = True, widthInput = ''100'', heightInput = ''50'',
        aspectRatioRef = Fin 2\<rparr>"
  let ?gst = "\<lparr>widthInput_guide = ''100'', heightInput_guide = ''50'', lockAspect = True,
        ratioRef = Fin 2\<rparr>"
  have m: "maintainAspect ?st" by simp
  have l: "lockAspect ?gst" by simp
  have d: "degenerateEdit (parseFloat ''abc'') (aspectRatioRef ?st)
             (toDouble (js_div (parseFloat ''abc'') (aspectRatioRef ?st)))"
    by (simp add: degenerateEdit_def pfabc)
  have nd: "\<not> degenerateEdit (parseFloat ''200'') (aspectRatioRef ?st)
             (toDouble (js_div (parseFloat ''200'') (aspectRatioRef ?st)))"
    by (simp add: degenerateEdit_def pf200 numberValue_def)
  note t1 = aspect_lock_writes_per_tool [OF m l, of toFixed "''abc''"]
  note t2 = aspect_lock_writes_per_tool [OF m l, of toFixed "''200''"]
  from t1 d have 1: "handleWidthChange toFixed ''abc'' ?st = ?st\<lparr>widthInput := ''abc''\<rparr>"
    by simp
  from t2 nd have 2: "handleWidthChange toFixed ''200'' ?st
       = ?st\<lparr>widthInput := ''200'', heightInput := formatNumberForInput toFixed (Fin 100)\<rparr>"
    by (simp add: pf200 numberValue_def)
  from t2 have 3: "handleWidthChange_guide toFixed ''200'' ?gst
       = ?gst\<lparr>widthInput_guide := ''200'',
              heightInput_guide := dropFinalDot (dropZeroFraction (toFixed 100 3))\<rparr>"
    by (simp add: pn200 usedRatio_def numberValue_def)
  from 1 2 3 show "handleWidthChange toFixed ''200'' ?st
     = \<lparr>svgText = [], maintainAspect = True, backgroundTransparent = False,
        showDimensionLines = True, widthInput = ''200'',
        heightInput = formatNumberForInput toFixed (Fin 100), aspectRatioRef = Fin 2\<rparr>
     \<and> handleWidthChange toFixed ''abc'' ?st
     = \<lparr>svgText = [], maintainAspect = True, backgroundTransparent = False,
        showDimensionLines = True, widthInput = ''abc'', heightInput = ''50'',
        aspectRatioRef = Fin 2\<rparr>
     \<and> handleWidthChange_guide toFixed ''200'' ?gst
     = \<lparr>widthInput_guide = ''200'',
        heightInput_guide = dropFinalDot (dropZeroFraction (toFixed 100 3)),
        lockAspect = True, ratioRef = Fin 2\<rparr>"
    by simp
qed

text \<open>
  Claim C10 as stated fails for the dimension guide: with a retained ratio of zero the
  width \<open>-5\<close> overwrites the height with the formatted \<open>-5\<close>, which is the text \<open>-5\<close> on a
  host whose \<open>toFixed\<close> gives \<open>-5.000\<close>.
\<close>

theorem guide_writes_negative_linked_value:
  "(\<forall>toFixed.
      handleWidthChange_guide toFixed ''-5''
        \<lparr>widthInput_guide = ''200'', heightInput_guide = ''120'', lockAspect = True,
         ratioRef = Fin 0\<rparr>
      = \<lparr>widthInput_guide = ''-5'',
         heightInput_guide = dropFinalDot (dropZeroFraction (toFixed (- 5) 3)),
         lockAspect = True, ratioRef = Fin 0\<rparr>)
   \<and> handleWidthChange_guide (\<lambda>x digits. ''-5.000'') ''-5''
        \<lparr>widthInput_guide = ''200'', heightInput_guide = ''120'', lockAspect = True,
         ratioRef = Fin 0\<rparr>
      = \<lparr>widthInput_guide = ''-5'', heightInput_guide = ''-5'', lockAspect = True,
         ratioRef = Fin 0\<rparr>"
  by (simp add: handleWidthChange_guide_def pnm5 numberValue_def dropFinalDot_def)

text \<open>
  The handlers of the first tool where the derived value leaves the range of the doubles:
  \<open>1e308\<close> times \<open>10\<close> is an infinity and \<open>1e-320\<close> divided by \<open>1e10\<close> is zero, and the linked
  field keeps its text.
\<close>

lemma pf_1e308: "parseFloat ''1e308'' = Fin (10 ^ 308)"
  by (simp add: number_eval)

lemma pf_1em320: "parseFloat ''1e-320'' = Fin (1 / 10 ^ 320)"
  by (simp add: number_eval)

lemma handleHeightChange_overflow:
  "handleHeightChange toFixed ''1e308''
     \<lparr>svgText = [], maintainAspect = True, backgroundTransparent = False,
      showDimensionLines = True, widthInput = ''100'', heightInput = ''10'',
      aspectRatioRef = Fin 10\<rparr>
   = \<lparr>svgText = [], maintainAspect = True, backgroundTransparent = False,
      showDimensionLines = True, widthInput = ''100'', heightInput = ''1e308'',
      aspectRatioRef = Fin 10\<rparr>"
  by (simp add: handleHeightChange_def pf_1e308 numberValue_def)

lemma handleWidthChange_underflow:
  "handleWidthChange toFixed ''1e-320''
     \<lparr>svgText = [], maintainAspect = True, backgroundTransparent = False,
      showDimensionLines = True, widthInput = ''100'', heightInput = ''10'',
      aspectRatioRef = Fin (10 ^ 10)\<rparr>
   = \<lparr>svgText = [], maintainAspect = True, backgroundTransparent = False,
      showDimensionLines = True, widthInput = ''1e-320'', heightInput = ''10'',
      aspectRatioRef = Fin (10 ^ 10)\<rparr>"
  by (simp add: handleWidthChange_def pf_1em320 numberValue_def)

lemma removed_cong:
  "tagName a = tagName b \<Longrightarrow> attributes a = attributes b \<Longrightarrow> getBBox a = getBBox b
   \<Longrightarrow> removed getBBox m tol d a = removed getBBox m tol d b"
  by (simp add: removed_def isCandidate_def matchesCanvas_def getAttribute_def)

lemma removed_prune:
  assumes "childFree getBBox"
  shows "removed getBBox m tol d (prune getBBox m tol d' c) = removed getBBox m tol d c"
proof (cases c)
  case (Element t as x cs)
  have "getBBox (prune getBBox m tol d' (Element t as x cs)) = getBBox (Element t as x cs)"
    using assms unfolding childFree_def by simp
  then show ?thesis
    unfolding Element by (intro removed_cong) simp_all
qed

lemma prune_idem:
  assumes "childFree getBBox"
  shows "prune getBBox m tol d (prune getBBox m tol d e) = prune getBBox m tol d e"
proof (induction e arbitrary: d)
  case (Element t as x cs)
  define d' where "d' = (d \<or> t = ''defs'')"
  define kept where "kept = filter (\<lambda>c. \<not> removed getBBox m tol d' c) cs"
  have 1: "filter (\<lambda>c. \<not> removed getBBox m tol d' c) (map (prune getBBox m tol d') ys)
         = map (prune getBBox m tol d') (filter (\<lambda>c. \<not> removed getBBox m tol d' c) ys)" for ys
    by (induction ys) (simp_all add: removed_prune [OF assms])
  have 2: "filter (\<lambda>c. \<not> removed getBBox m tol d' c) kept = kept"
    by (simp add: kept_def)
  have 3: "map (prune getBBox m tol d') (map (prune getBBox m tol d') kept)
         = map (prune getBBox m tol d') kept"
    using Element.IH [of _ d'] by (simp add: kept_def)
  have "prune getBBox m tol d (prune getBBox m tol d (Element t as x cs))
      = prune getBBox m tol d (Element t as x (map (prune getBBox m tol d') kept))"
    by (simp add: kept_def d'_def)
  also have "\<dots> = Element t as x
       (map (prune getBBox m tol d')
          (filter (\<lambda>c. \<not> removed getBBox m tol d' c) (map (prune getBBox m tol d') kept)))"
    by (simp add: d'_def)
  also have "\<dots> = Element t as x (map (prune getBBox m tol d') kept)"
    unfolding 1 2 3 ..
  also have "\<dots> = prune getBBox m tol d (Element t as x cs)"
    by (simp add: kept_def d'_def)
  finally show ?case .
qed

lemma removeCalls_prune:
  assumes "childFree getBBox"
  shows "removeCalls getBBox m tol d (prune getBBox m tol d e) = 0"
proof (induction e arbitrary: d)
  case (Element t as x cs)
  define d' where "d' = (d \<or> t = ''defs'')"
  define kept where "kept = filter (\<lambda>c. \<not> removed getBBox m tol d' c) cs"
  have k: "\<not> removed getBBox m tol d' (prune getBBox m tol d' c)
          \<and> removeCalls getBBox m tol d' (prune getBBox m tol d' c) = 0" if "c \<in> set kept" for c
    using that Element.IH [of c d'] by (simp add: kept_def removed_prune [OF assms])
  have "removeCalls getBBox m tol d (prune getBBox m tol d (Element t as x cs))
      = sum_list (map (\<lambda>c. (if removed getBBox m tol d' c then 1 else 0)
                              + removeCalls getBBox m tol d' c)
                      (map (prune getBBox m tol d') kept))"
    by (simp add: kept_def d'_def)
  also have "\<dots> = 0"
    using k by (simp add: comp_def)
  finally show ?case .
qed

text \<open>
  Claim C9. For every tree and all metrics, a second run of \<open>removeCanvasSizedShapes\<close> right
  after a first one removes no shape and leaves the tree as it is, for every host whose
  bounding box of a node does not depend on the children of the node (a document that is
  parsed and never rendered gets no box, or the empty box, for each of its nodes).
\<close>

theorem prune_twice_removes_nothing:
  assumes "childFree getBBox"
  shows "removedShapes getBBox inDefs (removeCanvasSizedShapes getBBox inDefs svgEl m) m = 0
       \<and> removeCanvasSizedShapes getBBox inDefs (removeCanvasSizedShapes getBBox inDefs svgEl m) m
           = removeCanvasSizedShapes getBBox inDefs svgEl m"
  by (simp add: removedShapes_def removeCanvasSizedShapes_def prune_idem [OF assms]
      removeCalls_prune [OF assms])

lemmas prune_eval =
  removed_def isCandidate_def matchesCanvas_def matchesDimension_def matchesPosition_def
  approxEqual_def parseNumeric_def tolerance_of_def js_max_def js_sub_def js_lt_def
  getAttribute_def trim_def endsWith_def toLowerCase_def toLowerCaseChar_def

lemma pf_100_50: "parseFloat ''100'' = Fin 100" "parseFloat ''50'' = Fin 50"
  by (simp_all add: number_eval)

lemma childFree_none: "childFree (\<lambda>e. None)"
  by (simp add: childFree_def)

text \<open>
  The theorem of C9 at the drawing of a white canvas-sized rectangle and a circle, for a
  host that gives no box: the first run removes the rectangle, the second run nothing.
\<close>

theorem prune_twice_removes_nothing_witness:
  "childFree (\<lambda>e. None)
   \<and> removeCanvasSizedShapes (\<lambda>e. None) False
         (Element ''svg'' [(''width'', ''100''), (''height'', ''50'')] []
            [Element ''rect'' [(''width'', ''100''), (''height'', ''50''), (''fill'', ''#ffffff'')] [] [],
             Element ''circle'' [(''r'', ''10''), (''fill'', ''#ff0000'')] [] []])
         (Metrics (Fin 100) (Fin 50) (Fin 0) (Fin 0))
       = Element ''svg'' [(''width'', ''100''), (''height'', ''50'')] []
            [Element ''circle'' [(''r'', ''10''), (''fill'', ''#ff0000'')] [] []]
   \<and> removedShapes (\<lambda>e. None) False
         (Element ''svg'' [(''width'', ''100''), (''height'', ''50'')] []
            [Element ''rect'' [(''width'', ''100''), (''height'', ''50''), (''fill'', ''#ffffff'')] [] [],
             Element ''circle'' [(''r'', ''10''), (''fill'', ''#ff0000'')] [] []])
         (Metrics (Fin 100) (Fin 50) (Fin 0) (Fin 0)) = 1
   \<and> removedShapes (\<lambda>e. None) False
         (Element ''svg'' [(''width'', ''100''), (''height'', ''50'')] []
            [Element ''circle'' [(''r'', ''10''), (''fill'', ''#ff0000'')] [] []])
         (Metrics (Fin 100) (Fin 50) (Fin 0) (Fin 0)) = 0"
proof -
  let ?svg = "Element ''svg'' [(''width'', ''100''), (''height'', ''50'')] []
            [Element ''rect'' [(''width'', ''100''), (''height'', ''50''), (''fill'', ''#ffffff'')] [] [],
             Element ''circle'' [(''r'', ''10''), (''fill'', ''#ff0000'')] [] []]"
  let ?m = "Metrics (Fin 100) (Fin 50) (Fin 0) (Fin 0)"
  have r: "removed (\<lambda>e. None) ?m (tolerance_of ?m) False
             (Element ''rect'' [(''width'', ''100''), (''height'', ''50''), (''fill'', ''#ffffff'')] [] [])"
    by (simp add: prune_eval pf_100_50 isWhiteSpace_def)
  have c: "\<not> removed (\<lambda>e. None) ?m (tolerance_of ?m) False
             (Element ''circle'' [(''r'', ''10''), (''fill'', ''#ff0000'')] [] [])"
    by (simp add: removed_def matchesCanvas_def toLowerCase_def toLowerCaseChar_def)
  have 1: "removeCanvasSizedShapes (\<lambda>e. None) False ?svg ?m
       = Element ''svg'' [(''width'', ''100''), (''height'', ''50'')] []
            [Element ''circle'' [(''r'', ''10''), (''fill'', ''#ff0000'')] [] []]"
    using r c by (simp add: removeCanvasSizedShapes_def)
  have 2: "removedShapes (\<lambda>e. None) False ?svg ?m = 1"
    using r c by (simp add: removedShapes_def)
  from prune_twice_removes_nothing [OF childFree_none, of False ?svg ?m]
  have 3: "removedShapes (\<lambda>e. None) False (removeCanvasSizedShapes (\<lambda>e. None) False ?svg ?m) ?m = 0"
    by blast
  from 1 2 3 childFree_none show ?thesis by simp
qed

text \<open>
  Claim C2 fails on the code: \<open>sanitizeSvgMarkup\<close> removes the \<open>script\<close> element and the
  \<open>onclick\<close> attribute of the rectangle, but the \<open>onload\<close> attribute of the root element is
  still there in the markup it returns.
\<close>

theorem root_handler_survives_sanitizing:
  "\<forall>toStr.
     sanitizeSvgMarkup toStr
       ''<svg onload='alert(1)'><script>alert(2)</script><rect onclick='alert(3)' width='10'/></svg>''
       (Some (Element ''svg'' [(''onload'', ''alert(1)'')] []
                [Element ''script'' [] ''alert(2)'' [],
                 Element ''rect'' [(''onclick'', ''alert(3)''), (''width'', ''10'')] [] []]))
       (Fin 200) (Fin 120) ''px''
     = Some (Element ''svg''
               [(''onload'', ''alert(1)''), (''width'', toStr 200 @ ''px''),
                (''height'', toStr 120 @ ''px''),
                (''viewBox'', ''0 0 '' @ toStr 200 @ '' '' @ toStr 120),
                (''preserveAspectRatio'', ''xMidYMid meet'')] []
               [Element ''rect'' [(''width'', ''10'')] [] []])
     \<and> hasHandlerAttribute (Element ''svg''
               [(''onload'', ''alert(1)''), (''width'', toStr 200 @ ''px''),
                (''height'', toStr 120 @ ''px''),
                (''viewBox'', ''0 0 '' @ toStr 200 @ '' '' @ toStr 120),
                (''preserveAspectRatio'', ''xMidYMid meet'')] []
               [Element ''rect'' [(''width'', ''10'')] [] []])"
  by (simp add: sanitizeSvgMarkup_def querySelector_def cleanBelow_def isHandlerName_def
      startsWith_def toLowerCase_def toLowerCaseChar_def setAttribute_def hasAttribute_def
      hasHandlerAttribute_def DEFAULT_WIDTH_def DEFAULT_HEIGHT_def Let_def)

text \<open>
  Below the root the sanitized markup is clean: no \<open>script\<close> element and no handler
  attribute is left on a proper descendant of the element returned.
\<close>

lemma removeScripts_tag [simp]: "tagName (removeScripts e) = tagName e"
  by (cases e) simp

lemma cleanSubtree_tag [simp]: "tagName (cleanSubtree e) = tagName e"
  by (cases e) simp

lemma descendants_removeScripts:
  "d \<in> set (descendants (removeScripts e)) \<Longrightarrow> tagName d \<noteq> ''script''"
proof (induction e arbitrary: d)
  case (Element t as x cs)
  from Element.prems obtain c where c: "c \<in> set cs" "tagName c \<noteq> ''script''"
    "d = removeScripts c \<or> d \<in> set (descendants (removeScripts c))"
    by auto
  then show ?case using Element.IH by auto
qed

lemma descendants_cleanSubtree_tags:
  "d \<in> set (descendants (cleanSubtree e))
   \<Longrightarrow> \<exists>d'\<in>set (descendants e). tagName d' = tagName d"
proof (induction e arbitrary: d)
  case (Element t as x cs)
  from Element.prems obtain c where c: "c \<in> set cs"
    "d = cleanSubtree c \<or> d \<in> set (descendants (cleanSubtree c))"
    by auto
  then show ?case using Element.IH by fastforce
qed

lemma cleanSubtree_no_handler: "\<not> hasHandlerAttribute (cleanSubtree e)"
  by (cases e) (simp add: hasHandlerAttribute_def list_ex_iff)

lemma descendants_cleanSubtree_no_handler:
  "d \<in> set (descendants (cleanSubtree e)) \<Longrightarrow> \<not> hasHandlerAttribute d"
proof (induction e arbitrary: d)
  case (Element t as x cs)
  from Element.prems obtain c where c: "c \<in> set cs"
    "d = cleanSubtree c \<or> d \<in> set (descendants (cleanSubtree c))"
    by auto
  then show ?case using Element.IH cleanSubtree_no_handler by auto
qed

lemma descendants_setAttribute [simp]: "descendants (setAttribute n v e) = descendants e"
  by (cases e) (simp add: setAttribute_def)

lemma descendants_cleanBelow:
  "d \<in> set (descendants (cleanBelow e))
   \<Longrightarrow> \<not> hasHandlerAttribute d \<and> (\<exists>d'\<in>set (descendants e). tagName d' = tagName d)"
proof -
  assume d: "d \<in> set (descendants (cleanBelow e))"
  obtain t as x cs where e: "e = Element t as x cs" by (cases e)
  from d obtain c where c: "c \<in> set cs"
    "d = cleanSubtree c \<or> d \<in> set (descendants (cleanSubtree c))"
    by (auto simp: e cleanBelow_def)
  show ?thesis
  proof (cases "d = cleanSubtree c")
    case True
    then show ?thesis using c(1) cleanSubtree_no_handler by (auto simp: e)
  next
    case False
    with c have m: "d \<in> set (descendants (cleanSubtree c))" by simp
    then obtain d' where "d' \<in> set (descendants c)" "tagName d' = tagName d"
      using descendants_cleanSubtree_tags by blast
    then show ?thesis
      using m c(1) descendants_cleanSubtree_no_handler by (auto simp: e)
  qed
qed

lemma sanitized_below_root:
  assumes "sanitizeSvgMarkup toStr svgMarkup doc width height unit = Some e"
    and "d \<in> set (descendants e)"
  shows "tagName d \<noteq> ''script'' \<and> \<not> hasHandlerAttribute d"
proof -
  from assms(1) obtain svg where s: "querySelector doc ''svg'' = Some svg"
    by (auto simp: sanitizeSvgMarkup_def split: if_splits option.splits)
  from assms(1) s have "descendants e = descendants (cleanBelow (removeScripts svg))"
    by (auto simp: sanitizeSvgMarkup_def Let_def split: if_splits)
  with assms(2) have d: "d \<in> set (descendants (cleanBelow (removeScripts svg)))" by simp
  from descendants_cleanBelow [OF d] descendants_removeScripts show ?thesis
    by metis
qed

text \<open>
  \<open>sanitizeSvg\<close> of the first tool works on the text; it removes script blocks and has no
  step for handler attributes.
\<close>

lemma sanitizeSvg_keeps_handlers:
  "sanitizeSvg ''<svg onload='alert(1)'></svg>'' = ''<svg onload='alert(1)'></svg>''"
  by (simp add: sanitizeSvg_def scriptBlockAt_def startsWith_def toLowerCase_def toLowerCaseChar_def)

lemma sanitizeSvg_removes_script_block:
  "sanitizeSvg ''<svg><SCRIPT>alert(2)</script><rect/></svg>'' = ''<svg><rect/></svg>''"
  by code_simp

text \<open>
  The second tool reads sizes the same way as the first: the number of a percentage is
  taken, and a negative size of the \<open>viewBox\<close> is kept.
\<close>

lemma parseLength2_percent: "parseLength2 (Some ''100%'') 160 = 100"
  by (simp add: parseLength2_def decimalMatchAt_def decimalPrefix_def number_eval)

lemma parseSvg_negative_viewBox:
  "parsed_viewBox (parseSvg toStr ''<svg viewBox='0 0 -5 -3'/>''
      (Some (Element ''svg'' [(''viewBox'', ''0 0 -5 -3'')] [] [])))
     = Some (ViewBox 0 0 (- 5) (- 3))"
  by (simp add: parseSvg_def querySelector_def readViewBox_def getAttribute_def trim_def
      number_eval)

end
